theory Spec2Isabelle
  imports Main "HOL-Library.Word" "HOL-Library.Multiset"
begin

section \<open>Go library functions the middleware calls\<close>

text \<open>
  The headers middleware (\<open>middlewares/headers/headers.go\<close>) works on \<open>net/http\<close> header
  collections. An \<open>http.Header\<close> is a Go \<open>map[string][]string\<close> keyed by canonical header
  names; it is modelled as a partial map from names to value lists. The maps and pointers a
  caller hands in (request, response and response-writer headers, the configuration) are
  allocated, as \<open>net/http\<close> delivers them; the only nil the code itself tests for is the
  \<open>next\<close> handler, and that one is an \<open>option\<close>.
\<close>

type_synonym http_Header = "string \<rightharpoonup> string list"

definition isLower :: "char \<Rightarrow> bool" where
  "isLower c = (97 \<le> (of_char c :: nat) \<and> (of_char c :: nat) \<le> 122)"

definition isUpper :: "char \<Rightarrow> bool" where
  "isUpper c = (65 \<le> (of_char c :: nat) \<and> (of_char c :: nat) \<le> 90)"

definition isDigit :: "char \<Rightarrow> bool" where
  "isDigit c = (48 \<le> (of_char c :: nat) \<and> (of_char c :: nat) \<le> 57)"

text \<open>
  \<open>net/textproto\<close>: the bytes of an RFC 7230 token, the only ones a header key is
  canonicalised over. The punctuation is \<open>! # $ % & ' * + - . ^ _ ` | ~\<close>.
\<close>

definition validHeaderFieldByte :: "char \<Rightarrow> bool" where
  "validHeaderFieldByte c =
     (isLower c \<or> isUpper c \<or> isDigit c \<or>
      (of_char c :: nat) \<in> set [33, 35, 36, 37, 38, 39, 42, 43, 45, 46, 94, 95, 96, 124, 126])"

text \<open>
  The canonicalising loop of \<open>textproto.canonicalMIMEHeaderKey\<close>: the first letter and every
  letter after a dash in upper case, every other letter in lower case. The flag \<open>upper\<close> says
  whether the next byte starts a word.
\<close>

fun canonicalBytes :: "bool \<Rightarrow> string \<Rightarrow> string" where
  "canonicalBytes upper [] = []"
| "canonicalBytes upper (c # cs) =
     (let c' = (if upper \<and> isLower c then char_of ((of_char c :: nat) - 32)
                else if \<not> upper \<and> isUpper c then char_of ((of_char c :: nat) + 32)
                else c)
      in c' # canonicalBytes (c' = CHR ''-'') cs)"

text \<open>
  \<open>textproto.CanonicalMIMEHeaderKey\<close>: a key with a byte that is not a token byte is returned
  unchanged, every other key is canonicalised.
\<close>

definition CanonicalMIMEHeaderKey :: "string \<Rightarrow> string" where
  "CanonicalMIMEHeaderKey s = (if list_all validHeaderFieldByte s then canonicalBytes True s else s)"

text \<open>\<open>http.Header.Get\<close>: the first value stored under the canonical key, \<open>""\<close> when there is none.\<close>

definition Get :: "http_Header \<Rightarrow> string \<Rightarrow> string" where
  "Get h key =
     (case h (CanonicalMIMEHeaderKey key) of
        None \<Rightarrow> []
      | Some [] \<Rightarrow> []
      | Some (v # _) \<Rightarrow> v)"

text \<open>\<open>http.Header.Set\<close>: the canonical key now holds the single value.\<close>

definition Set :: "http_Header \<Rightarrow> string \<Rightarrow> string \<Rightarrow> http_Header" where
  "Set h key val = h(CanonicalMIMEHeaderKey key \<mapsto> [val])"

text \<open>\<open>http.Header.Add\<close>: the value is appended to those the canonical key holds.\<close>

definition Add :: "http_Header \<Rightarrow> string \<Rightarrow> string \<Rightarrow> http_Header" where
  "Add h key val =
     h(CanonicalMIMEHeaderKey key \<mapsto>
         (case h (CanonicalMIMEHeaderKey key) of None \<Rightarrow> [] | Some vs \<Rightarrow> vs) @ [val])"

text \<open>\<open>http.Header.Del\<close>: the canonical key is removed.\<close>

definition Del :: "http_Header \<Rightarrow> string \<Rightarrow> http_Header" where
  "Del h key = h(CanonicalMIMEHeaderKey key := None)"

text \<open>\<open>strings.Join\<close>: the elements with the separator between each two of them.\<close>

fun Join :: "string list \<Rightarrow> string \<Rightarrow> string" where
  "Join [] sep = []"
| "Join [x] sep = x"
| "Join (x # y # ys) sep = x @ sep @ Join (y # ys) sep"

text \<open>\<open>strconv.Itoa\<close>: the decimal digits of an integer, most significant first, after a minus
  sign when it is negative.\<close>

function decimalDigits :: "nat \<Rightarrow> string" where
  "decimalDigits n =
     (if n < 10 then [char_of (48 + n)]
      else decimalDigits (n div 10) @ [char_of (48 + n mod 10)])"
  by pat_completeness auto
termination
  by (relation "measure (\<lambda>n. n)") auto

declare decimalDigits.simps [simp del]

definition Itoa :: "int \<Rightarrow> string" where
  "Itoa i = (if i < 0 then CHR ''-'' # decimalDigits (nat (- i)) else decimalDigits (nat i))"

text \<open>The number a string of decimal digits denotes, to read \<open>Itoa\<close>'s output back.\<close>

definition decimalValue :: "string \<Rightarrow> nat" where
  "decimalValue ds = foldl (\<lambda>acc d. 10 * acc + ((of_char d :: nat) - 48)) 0 ds"

section \<open>Data model\<close>

text \<open>
  \<open>config.Headers\<close>, the configuration of the middleware. Its declaration is in the
  \<open>config\<close> package; the fields are the ones \<open>headers.go\<close> reads. A \<open>map[string]string\<close> is
  the list of its entries in the order the \<open>range\<close> loop visits them, which Go leaves open:
  what is proved of one run for every list holds for every visiting order, and a statement
  about two runs lets the second run visit the map in another order. \<open>AccessControlMaxAge\<close> and
  \<open>STSSeconds\<close> are \<open>int64\<close>.
\<close>

record Headers =
  CustomRequestHeaders :: "(string \<times> string) list"
  CustomResponseHeaders :: "(string \<times> string) list"
  AccessControlAllowCredentials :: bool
  AccessControlAllowHeaders :: "string list"
  AccessControlAllowMethods :: "string list"
  AccessControlAllowOrigin :: string
  AccessControlExposeHeaders :: "string list"
  AccessControlMaxAge :: "64 word"
  AddVaryHeader :: bool
  AllowedHosts :: "string list"
  HostsProxyHeaders :: "string list"
  SSLRedirect :: bool
  SSLTemporaryRedirect :: bool
  SSLHost :: string
  SSLProxyHeaders :: "(string \<times> string) list"
  SSLForceHost :: bool
  STSSeconds :: "64 word"
  STSIncludeSubdomains :: bool
  STSPreload :: bool
  ForceSTSHeader :: bool
  FrameDeny :: bool
  CustomFrameOptionsValue :: string
  ContentTypeNosniff :: bool
  BrowserXSSFilter :: bool
  CustomBrowserXSSValue :: string
  ContentSecurityPolicy :: string
  PublicKey :: string
  ReferrerPolicy :: string
  IsDevelopment :: bool

text \<open>The zero value of \<open>config.Headers\<close>: nothing configured.\<close>

definition zeroHeaders :: Headers where
  "zeroHeaders =
     \<lparr> CustomRequestHeaders = [], CustomResponseHeaders = [],
       AccessControlAllowCredentials = False, AccessControlAllowHeaders = [],
       AccessControlAllowMethods = [], AccessControlAllowOrigin = [],
       AccessControlExposeHeaders = [], AccessControlMaxAge = 0, AddVaryHeader = False,
       AllowedHosts = [], HostsProxyHeaders = [], SSLRedirect = False,
       SSLTemporaryRedirect = False, SSLHost = [], SSLProxyHeaders = [], SSLForceHost = False,
       STSSeconds = 0, STSIncludeSubdomains = False, STSPreload = False, ForceSTSHeader = False,
       FrameDeny = False, CustomFrameOptionsValue = [], ContentTypeNosniff = False,
       BrowserXSSFilter = False, CustomBrowserXSSValue = [], ContentSecurityPolicy = [],
       PublicKey = [], ReferrerPolicy = [], IsDevelopment = False \<rparr>"

text \<open>\<open>secure.Options\<close> of the external security-header engine, as \<open>newSecure\<close> fills it.\<close>

record Options =
  opt_BrowserXssFilter :: bool
  opt_ContentTypeNosniff :: bool
  opt_ForceSTSHeader :: bool
  opt_FrameDeny :: bool
  opt_IsDevelopment :: bool
  opt_SSLRedirect :: bool
  opt_SSLForceHost :: bool
  opt_SSLTemporaryRedirect :: bool
  opt_STSIncludeSubdomains :: bool
  opt_STSPreload :: bool
  opt_ContentSecurityPolicy :: string
  opt_CustomBrowserXssValue :: string
  opt_CustomFrameOptionsValue :: string
  opt_PublicKey :: string
  opt_ReferrerPolicy :: string
  opt_SSLHost :: string
  opt_AllowedHosts :: "string list"
  opt_HostsProxyHeaders :: "string list"
  opt_SSLProxyHeaders :: "(string \<times> string) list"
  opt_STSSeconds :: "64 word"

text \<open>
  The parts of \<open>http.Request\<close>, \<open>http.Response\<close> and \<open>http.ResponseWriter\<close> the code
  touches. A response writer holds its header map; \<open>rw_added\<close> is the trace of the
  \<open>rw.Header().Add\<close> calls made on it, oldest first, which keeps the order of emission
  that the map alone forgets.
\<close>

record Request =
  Method :: string
  req_Header :: http_Header

record Response =
  res_Header :: http_Header
  res_Request :: Request

record ResponseWriter =
  rw_Header :: http_Header
  rw_added :: "(string \<times> string) list"

text \<open>
  \<open>type Header struct\<close>. The handler type \<open>'h\<close> stands for \<open>http.Handler\<close>; \<open>next\<close> is
  \<open>None\<close> for a nil handler.
\<close>

record 'h Header =
  "next" :: "'h option"
  headers :: Headers
  originHeader :: string

text \<open>\<open>type secureHeader struct\<close>: the next handler and the engine built from the options.\<close>

record 'h secureHeader =
  sh_next :: "'h option"
  sh_secure :: Options

text \<open>
  The handlers \<open>New\<close> chains. The local \<open>nextHandler\<close> is the caller's handler (nil when
  the caller passed nil) or the \<open>secureHeader\<close> around it; \<open>handler\<close> is a \<open>secureHeader\<close>
  or the \<open>Header\<close> in front of \<open>nextHandler\<close>. What the \<open>ServeHTTP\<close> methods of
  \<open>headers\<close> and \<open>secureHeader\<close> do (lines 65--67 and 105--107) is delegation, to the
  installed handler and to the external engine; no claim is about them.
\<close>

datatype 'h nextHandler = Plain 'h | Secured "'h secureHeader"

datatype 'h installed = InstalledSecure "'h secureHeader" | InstalledHeader "'h nextHandler Header"

text \<open>\<open>type headers struct\<close>, what \<open>New\<close> returns.\<close>

record 'h headers_struct =
  name :: string
  handler :: "'h installed option"

datatype error = ConfigError string

section \<open>The middleware\<close>

text \<open>\<open>NewHeader\<close> (lines 118--123): \<open>originHeader\<close> is not set and so is the empty string.\<close>

definition NewHeader :: "'h option \<Rightarrow> Headers \<Rightarrow> 'h Header" where
  "NewHeader nxt hdrs = \<lparr> next = nxt, headers = hdrs, originHeader = [] \<rparr>"

text \<open>
  The \<open>secure.Options\<close> literal, written out field by field in \<open>newSecure\<close> (lines
  76--97) and again in \<open>buildHeaders\<close>.
\<close>

definition secureOptions :: "Headers \<Rightarrow> Options" where
  "secureOptions hdrs =
     \<lparr> opt_BrowserXssFilter = BrowserXSSFilter hdrs,
       opt_ContentTypeNosniff = ContentTypeNosniff hdrs,
       opt_ForceSTSHeader = ForceSTSHeader hdrs,
       opt_FrameDeny = FrameDeny hdrs,
       opt_IsDevelopment = IsDevelopment hdrs,
       opt_SSLRedirect = SSLRedirect hdrs,
       opt_SSLForceHost = SSLForceHost hdrs,
       opt_SSLTemporaryRedirect = SSLTemporaryRedirect hdrs,
       opt_STSIncludeSubdomains = STSIncludeSubdomains hdrs,
       opt_STSPreload = STSPreload hdrs,
       opt_ContentSecurityPolicy = ContentSecurityPolicy hdrs,
       opt_CustomBrowserXssValue = CustomBrowserXSSValue hdrs,
       opt_CustomFrameOptionsValue = CustomFrameOptionsValue hdrs,
       opt_PublicKey = PublicKey hdrs,
       opt_ReferrerPolicy = ReferrerPolicy hdrs,
       opt_SSLHost = SSLHost hdrs,
       opt_AllowedHosts = AllowedHosts hdrs,
       opt_HostsProxyHeaders = HostsProxyHeaders hdrs,
       opt_SSLProxyHeaders = SSLProxyHeaders hdrs,
       opt_STSSeconds = STSSeconds hdrs \<rparr>"

text \<open>\<open>newSecure\<close> (lines 75--103).\<close>

definition newSecure :: "'h option \<Rightarrow> Headers \<Rightarrow> 'h secureHeader" where
  "newSecure nxt hdrs = \<lparr> sh_next = nxt, sh_secure = secureOptions hdrs \<rparr>"

text \<open>
  \<open>New\<close> (lines 28--59). The three tests \<open>HasSecureHeadersDefined\<close>,
  \<open>HasCustomHeadersDefined\<close> and \<open>HasCorsHeadersDefined\<close> are methods of \<open>config.Headers\<close>
  declared outside this file; they are parameters. The logger calls have no effect on the
  result.
\<close>

definition New ::
  "(Headers \<Rightarrow> bool) \<Rightarrow> (Headers \<Rightarrow> bool) \<Rightarrow> (Headers \<Rightarrow> bool) \<Rightarrow>
   'h option \<Rightarrow> Headers \<Rightarrow> string \<Rightarrow> error + 'h headers_struct" where
  "New HasSecureHeadersDefined HasCustomHeadersDefined HasCorsHeadersDefined nxt config nm =
     (let hasSecureHeaders = HasSecureHeadersDefined config;
          hasCustomHeaders = HasCustomHeadersDefined config;
          hasCorsHeaders = HasCorsHeadersDefined config
      in if \<not> hasSecureHeaders \<and> \<not> hasCustomHeaders \<and> \<not> hasCorsHeaders
         then Inl (ConfigError ''headers configuration not valid'')
         else
           let (handler0, nextHandler) =
                 (if hasSecureHeaders
                  then (Some (InstalledSecure (newSecure nxt config)),
                        Some (Secured (newSecure nxt config)))
                  else (None, map_option Plain nxt));
               handler1 =
                 (if hasCustomHeaders \<or> hasCorsHeaders
                  then Some (InstalledHeader (NewHeader nextHandler config))
                  else handler0)
           in Inr \<lparr> name = nm, handler = handler1 \<rparr>)"

text \<open>\<open>getAllowOrigin\<close> (lines 213--224).\<close>

definition getAllowOrigin :: "'h Header \<Rightarrow> string" where
  "getAllowOrigin s =
     (if AccessControlAllowOrigin (headers s) = ''origin-list-or-null''
      then (if originHeader s = [] then ''null'' else originHeader s)
      else if AccessControlAllowOrigin (headers s) = ''*'' then ''*''
      else [])"

text \<open>
  The body of the two \<open>range\<close> loops over a custom-header map (lines 165--171 and
  177--183): an empty value deletes the header, any other value sets it.
\<close>

definition setOrDelete :: "http_Header \<Rightarrow> string \<times> string \<Rightarrow> http_Header" where
  "setOrDelete h kv = (if snd kv = [] then Del h (fst kv) else Set h (fst kv) (snd kv))"

text \<open>\<open>modifyRequestHeaders\<close> (lines 163--172).\<close>

definition modifyRequestHeaders :: "'h Header \<Rightarrow> Request \<Rightarrow> Request" where
  "modifyRequestHeaders s req =
     req\<lparr> req_Header := foldl setOrDelete (req_Header req) (CustomRequestHeaders (headers s)) \<rparr>"

text \<open>
  \<open>ModifyResponseHeaders\<close> (lines 175--211), stage by stage. \<open>customResponseStage\<close> is the
  loop of lines 177--183, \<open>allowOriginStage\<close> lines 185--199, \<open>allowCredentialsStage\<close> lines
  201--203 and \<open>exposeHeadersStage\<close> lines 205--208. The function mutates the response and
  returns the error, which is always nil (\<open>None\<close>).
\<close>

definition customResponseStage :: "'h Header \<Rightarrow> http_Header \<Rightarrow> http_Header" where
  "customResponseStage s h = foldl setOrDelete h (CustomResponseHeaders (headers s))"

definition allowOriginStage :: "'h Header \<Rightarrow> http_Header \<Rightarrow> http_Header" where
  "allowOriginStage s h =
     (let allowOrigin = getAllowOrigin s
      in if allowOrigin \<noteq> []
         then
           (let h1 = Set h ''Access-Control-Allow-Origin'' allowOrigin
            in if AddVaryHeader (headers s)
               then
                 (let varyHeader = Get h1 ''Vary'';
                      varyHeader' = (if varyHeader \<noteq> [] then varyHeader @ '',Origin'' else ''Origin'')
                  in Set h1 ''Vary'' varyHeader')
               else h1)
         else h)"

definition allowCredentialsStage :: "'h Header \<Rightarrow> http_Header \<Rightarrow> http_Header" where
  "allowCredentialsStage s h =
     (if AccessControlAllowCredentials (headers s)
      then Set h ''Access-Control-Allow-Credentials'' ''true''
      else h)"

definition exposeHeadersStage :: "'h Header \<Rightarrow> http_Header \<Rightarrow> http_Header" where
  "exposeHeadersStage s h =
     (let exposeHeaders = Join (AccessControlExposeHeaders (headers s)) '',''
      in if exposeHeaders \<noteq> [] then Set h ''Access-Control-Expose-Headers'' exposeHeaders else h)"

definition ModifyResponseHeaders :: "'h Header \<Rightarrow> Response \<Rightarrow> Response \<times> error option" where
  "ModifyResponseHeaders s res =
     (res\<lparr> res_Header :=
              exposeHeadersStage s (allowCredentialsStage s (allowOriginStage s
                (customResponseStage s (res_Header res)))) \<rparr>,
      None)"

text \<open>
  \<open>Header.ServeHTTP\<close> (lines 125--160). The receiver is a pointer to the \<open>Header\<close> that
  \<open>New\<close> installed once, so the call returns the receiver as it leaves it. The call of
  \<open>s.next.ServeHTTP(rw, req)\<close> is the last thing the function does; \<open>nextCall\<close> holds the
  handler and the arguments of that call, \<open>None\<close> when the call is not made.

  \<open>storeOrigin\<close> is lines 126--128: the two preflight headers are read into locals, the
  \<open>Origin\<close> header into the field of the receiver. \<open>respond\<close> is the \<open>if\<close> of lines
  130--159, \<open>preflightResponse\<close> its first branch (lines 132--152) and \<open>addHeader\<close> one
  call of \<open>rw.Header().Add\<close>. \<open>int\<close> is 64 bits wide, so the conversion of
  \<open>AccessControlMaxAge\<close> keeps the signed value.
\<close>

record 'h served =
  receiver :: "'h Header"
  writer :: ResponseWriter
  request :: Request
  nextCall :: "('h \<times> ResponseWriter \<times> Request) option"

definition storeOrigin :: "'h Header \<Rightarrow> Request \<Rightarrow> string \<times> string \<times> 'h Header" where
  "storeOrigin s req =
     (Get (req_Header req) ''Access-Control-Request-Method'',
      Get (req_Header req) ''Access-Control-Request-Headers'',
      s\<lparr> originHeader := Get (req_Header req) ''Origin'' \<rparr>)"

definition addHeader :: "ResponseWriter \<Rightarrow> string \<Rightarrow> string \<Rightarrow> ResponseWriter" where
  "addHeader rw key val =
     rw\<lparr> rw_Header := Add (rw_Header rw) key val, rw_added := rw_added rw @ [(key, val)] \<rparr>"

definition preflightResponse :: "'h Header \<Rightarrow> ResponseWriter \<Rightarrow> ResponseWriter" where
  "preflightResponse s rw0 =
     (let rw1 = (if AccessControlAllowCredentials (headers s)
                 then addHeader rw0 ''Access-Control-Allow-Credentials'' ''true'' else rw0);
          allowHeaders = Join (AccessControlAllowHeaders (headers s)) '','';
          rw2 = (if allowHeaders \<noteq> []
                 then addHeader rw1 ''Access-Control-Allow-Headers'' allowHeaders else rw1);
          allowMethods = Join (AccessControlAllowMethods (headers s)) '','';
          rw3 = (if allowMethods \<noteq> []
                 then addHeader rw2 ''Access-Control-Allow-Methods'' allowMethods else rw2);
          allowOrigin = getAllowOrigin s;
          rw4 = (if allowOrigin \<noteq> []
                 then addHeader rw3 ''Access-Control-Allow-Origin'' allowOrigin else rw3)
      in addHeader rw4 ''Access-Control-Max-Age'' (Itoa (sint (AccessControlMaxAge (headers s)))))"

definition respond ::
  "'h Header \<Rightarrow> string \<Rightarrow> string \<Rightarrow> ResponseWriter \<Rightarrow> Request \<Rightarrow> 'h served" where
  "respond s reqAcMethod reqAcHeaders rw req =
     (if reqAcMethod \<noteq> [] \<and> reqAcHeaders \<noteq> [] \<and> originHeader s \<noteq> [] \<and> Method req = ''OPTIONS''
      then \<lparr> receiver = s,
             writer = preflightResponse s rw,
             request = req,
             nextCall = None \<rparr>
      else
        (let req' = modifyRequestHeaders s req
         in \<lparr> receiver = s,
              writer = rw,
              request = req',
              nextCall = (case next s of None \<Rightarrow> None | Some n \<Rightarrow> Some (n, rw, req')) \<rparr>))"

definition ServeHTTP :: "'h Header \<Rightarrow> ResponseWriter \<Rightarrow> Request \<Rightarrow> 'h served" where
  "ServeHTTP s rw req =
     (case storeOrigin s req of
        (reqAcMethod, reqAcHeaders, s') \<Rightarrow> respond s' reqAcMethod reqAcHeaders rw req)"

text \<open>
  \<open>buildHeaders\<close> of the \<open>responsemodifiers\<close> package: the response modifier built from a
  configuration. The three tests of \<open>config.Headers\<close> are parameters as in \<open>New\<close>, and so
  is \<open>secureModify\<close>, the \<open>ModifyResponseHeaders\<close> of the external engine built from the
  options. The \<open>Header\<close> is built by \<open>NewHeader(nil, *hdrs)\<close> inside the closure, once for
  each response.
\<close>

definition buildHeaders ::
  "(Headers \<Rightarrow> bool) \<Rightarrow> (Headers \<Rightarrow> bool) \<Rightarrow> (Headers \<Rightarrow> bool) \<Rightarrow>
   (Options \<Rightarrow> Response \<Rightarrow> Response \<times> error option) \<Rightarrow>
   Headers \<Rightarrow> Response \<Rightarrow> Response \<times> error option" where
  "buildHeaders HasSecureHeadersDefined HasCustomHeadersDefined HasCorsHeadersDefined
       secureModify hdrs resp =
     (let opt = secureOptions hdrs;
          (resp1, err1) =
             (if HasCustomHeadersDefined hdrs \<or> HasCorsHeadersDefined hdrs
              then ModifyResponseHeaders (NewHeader (None :: unit option) hdrs) resp
              else (resp, None))
      in if err1 \<noteq> None then (resp1, err1)
         else if HasSecureHeadersDefined hdrs
              then secureModify opt resp1
              else (resp1, None))"

section \<open>The specification's terms and sample inputs\<close>

text \<open>
  A preflight request in the words of the specification (section 4.2): the method is
  \<open>OPTIONS\<close> and the request carries non-empty \<open>Access-Control-Request-Method\<close>,
  \<open>Access-Control-Request-Headers\<close> and \<open>Origin\<close> headers.
\<close>

definition spec_preflight :: "Request \<Rightarrow> bool" where
  "spec_preflight req =
     (Method req = ''OPTIONS'' \<and>
      Get (req_Header req) ''Access-Control-Request-Method'' \<noteq> [] \<and>
      Get (req_Header req) ''Access-Control-Request-Headers'' \<noteq> [] \<and>
      Get (req_Header req) ''Origin'' \<noteq> [])"

text \<open>The preflight request of section 8 of the specification, for a given origin.\<close>

definition optionsRequest :: "string \<Rightarrow> Request" where
  "optionsRequest origin =
     \<lparr> Method = ''OPTIONS'',
       req_Header = [''Origin'' \<mapsto> [origin],
                     ''Access-Control-Request-Method'' \<mapsto> [''GET''],
                     ''Access-Control-Request-Headers'' \<mapsto> [''X-Foo'']] \<rparr>"

text \<open>A plain \<open>GET\<close> request with an origin.\<close>

definition getRequest :: "string \<Rightarrow> Request" where
  "getRequest origin =
     \<lparr> Method = ''GET'', req_Header = [''Origin'' \<mapsto> [origin], ''X-Old'' \<mapsto> [''1'']] \<rparr>"

text \<open>A response writer nothing has been written to.\<close>

definition emptyWriter :: ResponseWriter where
  "emptyWriter = \<lparr> rw_Header = Map.empty, rw_added = [] \<rparr>"

text \<open>
  Two requests served by the same receiver at the same time, in one of the orders Go allows:
  the first runs lines 126--128, then the second runs its lines 126--128, then the first
  runs lines 130--159 with its own locals, response writer and request. The result is what
  the first request gets.
\<close>

definition ServeHTTP_interleaved ::
  "'h Header \<Rightarrow> ResponseWriter \<Rightarrow> Request \<Rightarrow> Request \<Rightarrow> 'h served" where
  "ServeHTTP_interleaved s rwA reqA reqB =
     (case storeOrigin s reqA of
        (reqAcMethodA, reqAcHeadersA, s1) \<Rightarrow>
          (case storeOrigin s1 reqB of
             (reqAcMethodB, reqAcHeadersB, s2) \<Rightarrow> respond s2 reqAcMethodA reqAcHeadersA rwA reqA))"

text \<open>
  Go draws the order in which a \<open>range\<close> loop visits a map anew for every loop. The same
  \<open>Header\<close> on a later run, when its loop visits the custom request headers, or the custom
  response headers, in the order \<open>ys\<close>:
\<close>

definition withRequestOrder :: "'h Header \<Rightarrow> (string \<times> string) list \<Rightarrow> 'h Header" where
  "withRequestOrder s ys = s\<lparr> headers := (headers s)\<lparr> CustomRequestHeaders := ys \<rparr> \<rparr>"

definition withResponseOrder :: "'h Header \<Rightarrow> (string \<times> string) list \<Rightarrow> 'h Header" where
  "withResponseOrder s ys = s\<lparr> headers := (headers s)\<lparr> CustomResponseHeaders := ys \<rparr> \<rparr>"

text \<open>
  A \<open>Header\<close> in front of the handler 7 with the policy \<open>*\<close>, \<open>AddVaryHeader\<close>, and custom
  request and response headers that delete \<open>X-Old\<close> and set \<open>x-new\<close>.
\<close>

definition sampleHeader :: "nat Header" where
  "sampleHeader =
     NewHeader (Some 7)
       (zeroHeaders\<lparr> CustomRequestHeaders := [(''X-Old'', []), (''x-new'', ''v'')],
                     CustomResponseHeaders := [(''X-Old'', []), (''x-new'', ''v'')],
                     AccessControlAllowOrigin := ''*'',
                     AddVaryHeader := True \<rparr>)"

text \<open>
  The same with custom headers whose two names, \<open>x-dup\<close> and \<open>X-Dup\<close>, are different keys
  of the Go map and canonicalise to the one header \<open>X-Dup\<close>.
\<close>

definition dupHeader :: "nat Header" where
  "dupHeader =
     NewHeader (Some 7)
       (zeroHeaders\<lparr> CustomRequestHeaders := [(''x-dup'', ''lower''), (''X-Dup'', ''upper'')],
                     CustomResponseHeaders := [(''x-dup'', ''lower''), (''X-Dup'', ''upper'')],
                     AccessControlAllowOrigin := ''*'',
                     AddVaryHeader := True \<rparr>)"

text \<open>A response to the plain request, with one header.\<close>

definition sampleResponse :: Response where
  "sampleResponse = \<lparr> res_Header = [''X-Old'' \<mapsto> [''1'']], res_Request = getRequest ''http://a'' \<rparr>"

section \<open>Header names\<close>

text \<open>Every header name the code writes as a literal is already canonical.\<close>

lemma canon_literals:
  "CanonicalMIMEHeaderKey ''Vary'' = ''Vary''"
  "CanonicalMIMEHeaderKey ''Origin'' = ''Origin''"
  "CanonicalMIMEHeaderKey ''Access-Control-Request-Method'' = ''Access-Control-Request-Method''"
  "CanonicalMIMEHeaderKey ''Access-Control-Request-Headers'' = ''Access-Control-Request-Headers''"
  "CanonicalMIMEHeaderKey ''Access-Control-Allow-Credentials'' = ''Access-Control-Allow-Credentials''"
  "CanonicalMIMEHeaderKey ''Access-Control-Allow-Headers'' = ''Access-Control-Allow-Headers''"
  "CanonicalMIMEHeaderKey ''Access-Control-Allow-Methods'' = ''Access-Control-Allow-Methods''"
  "CanonicalMIMEHeaderKey ''Access-Control-Allow-Origin'' = ''Access-Control-Allow-Origin''"
  "CanonicalMIMEHeaderKey ''Access-Control-Max-Age'' = ''Access-Control-Max-Age''"
  "CanonicalMIMEHeaderKey ''Access-Control-Expose-Headers'' = ''Access-Control-Expose-Headers''"
  by code_simp+

lemma spec_preflight_optionsRequest: "spec_preflight (optionsRequest ''http://a'')"
  by (simp add: spec_preflight_def optionsRequest_def Get_def canon_literals)


section \<open>Allow-origin resolution\<close>

text \<open>
  Claim C2. \<open>getAllowOrigin\<close> returns \<open>"null"\<close> for the policy \<open>origin-list-or-null\<close> and
  an empty origin, the origin itself for that policy and a non-empty origin, \<open>"*"\<close> for the
  policy \<open>*\<close> whatever the origin, and the empty string for every other configured value;
  in that last case neither the response path nor the preflight path touches
  \<open>Access-Control-Allow-Origin\<close>.
\<close>

theorem getAllowOrigin_resolution:
  "(AccessControlAllowOrigin (headers s) = ''origin-list-or-null'' \<and> originHeader s = []
      \<longrightarrow> getAllowOrigin s = ''null'') \<and>
   (AccessControlAllowOrigin (headers s) = ''origin-list-or-null'' \<and> originHeader s \<noteq> []
      \<longrightarrow> getAllowOrigin s = originHeader s) \<and>
   (AccessControlAllowOrigin (headers s) = ''*'' \<longrightarrow> getAllowOrigin s = ''*'') \<and>
   (AccessControlAllowOrigin (headers s) \<noteq> ''origin-list-or-null'' \<and>
    AccessControlAllowOrigin (headers s) \<noteq> ''*''
      \<longrightarrow> getAllowOrigin s = [] \<and>
          allowOriginStage s h = h \<and>
          rw_Header (preflightResponse s rw) ''Access-Control-Allow-Origin'' =
            rw_Header rw ''Access-Control-Allow-Origin'')"
  by (auto simp: getAllowOrigin_def allowOriginStage_def preflightResponse_def addHeader_def
        Add_def canon_literals Let_def)

theorem getAllowOrigin_resolution_witness:
  "getAllowOrigin (NewHeader (None :: unit option)
      (zeroHeaders\<lparr> AccessControlAllowOrigin := ''origin-list-or-null'' \<rparr>)) = ''null'' \<and>
   getAllowOrigin ((NewHeader (None :: unit option)
      (zeroHeaders\<lparr> AccessControlAllowOrigin := ''origin-list-or-null'' \<rparr>))
        \<lparr> originHeader := ''http://a'' \<rparr>) = ''http://a'' \<and>
   getAllowOrigin ((NewHeader (None :: unit option)
      (zeroHeaders\<lparr> AccessControlAllowOrigin := ''*'' \<rparr>))
        \<lparr> originHeader := ''http://a'' \<rparr>) = ''*'' \<and>
   getAllowOrigin ((NewHeader (None :: unit option)
      (zeroHeaders\<lparr> AccessControlAllowOrigin := ''http://a'' \<rparr>))
        \<lparr> originHeader := ''http://a'' \<rparr>) = []"
  using
    getAllowOrigin_resolution [of "NewHeader (None :: unit option)
      (zeroHeaders\<lparr> AccessControlAllowOrigin := ''origin-list-or-null'' \<rparr>)"]
    getAllowOrigin_resolution [of "(NewHeader (None :: unit option)
      (zeroHeaders\<lparr> AccessControlAllowOrigin := ''origin-list-or-null'' \<rparr>))
        \<lparr> originHeader := ''http://a'' \<rparr>"]
    getAllowOrigin_resolution [of "(NewHeader (None :: unit option)
      (zeroHeaders\<lparr> AccessControlAllowOrigin := ''*'' \<rparr>))
        \<lparr> originHeader := ''http://a'' \<rparr>"]
    getAllowOrigin_resolution [of "(NewHeader (None :: unit option)
      (zeroHeaders\<lparr> AccessControlAllowOrigin := ''http://a'' \<rparr>))
        \<lparr> originHeader := ''http://a'' \<rparr>"]
  by (simp add: NewHeader_def zeroHeaders_def)

section \<open>The preflight response\<close>

lemma Join_comma_empty_iff: "Join xs '','' = [] \<longleftrightarrow> xs = [] \<or> xs = [[]]"
  by (induction xs "'',''" rule: Join.induct) auto

lemma decimalValue_snoc:
  "decimalValue (ds @ [d]) = 10 * decimalValue ds + ((of_char d :: nat) - 48)"
  by (simp add: decimalValue_def)

lemma decimalValue_decimalDigits: "decimalValue (decimalDigits n) = n"
proof (induction n rule: decimalDigits.induct)
  case (1 n)
  show ?case
  proof (cases "n < 10")
    case True
    then show ?thesis
      by (subst decimalDigits.simps) (simp add: decimalValue_def)
  next
    case False
    have "n mod 10 < 10" by simp
    then have d: "(of_char (char_of (48 + n mod 10) :: char) :: nat) = 48 + n mod 10"
      by simp
    from False 1 have "decimalValue (decimalDigits (n div 10)) = n div 10" by simp
    with False d show ?thesis
      by (subst decimalDigits.simps) (simp add: decimalValue_snoc)
  qed
qed

lemma Itoa_zero: "Itoa 0 = ''0''"
  by code_simp

lemma rw_Header_addHeader: "rw_Header (addHeader rw k v) = Add (rw_Header rw) k v"
  by (simp add: addHeader_def)

lemma rw_added_preflightResponse:
  "rw_added (preflightResponse s rw) = rw_added rw @
     (if AccessControlAllowCredentials (headers s)
      then [(''Access-Control-Allow-Credentials'', ''true'')] else []) @
     (if Join (AccessControlAllowHeaders (headers s)) '','' \<noteq> []
      then [(''Access-Control-Allow-Headers'', Join (AccessControlAllowHeaders (headers s)) '','')]
      else []) @
     (if Join (AccessControlAllowMethods (headers s)) '','' \<noteq> []
      then [(''Access-Control-Allow-Methods'', Join (AccessControlAllowMethods (headers s)) '','')]
      else []) @
     (if getAllowOrigin s \<noteq> [] then [(''Access-Control-Allow-Origin'', getAllowOrigin s)] else []) @
     [(''Access-Control-Max-Age'', Itoa (sint (AccessControlMaxAge (headers s))))]"
  by (simp add: preflightResponse_def addHeader_def Let_def)

lemma rw_Header_preflightResponse:
  "rw_Header (preflightResponse s rw) =
     foldl (\<lambda>h kv. Add h (fst kv) (snd kv)) (rw_Header rw)
       (drop (length (rw_added rw)) (rw_added (preflightResponse s rw)))"
  unfolding rw_added_preflightResponse
  by (simp add: preflightResponse_def Let_def rw_Header_addHeader)

lemma maxAge_preflightResponse:
  "rw_Header (preflightResponse s rw) ''Access-Control-Max-Age'' =
     Some ((case rw_Header rw ''Access-Control-Max-Age'' of None \<Rightarrow> [] | Some vs \<Rightarrow> vs) @
           [Itoa (sint (AccessControlMaxAge (headers s)))])"
  by (simp add: preflightResponse_def Let_def rw_Header_addHeader Add_def canon_literals)

lemma writer_ServeHTTP_preflight:
  "spec_preflight req \<Longrightarrow>
     writer (ServeHTTP s rw req) =
       preflightResponse (s\<lparr> originHeader := Get (req_Header req) ''Origin'' \<rparr>) rw"
  by (simp add: ServeHTTP_def storeOrigin_def respond_def spec_preflight_def)

text \<open>
  Claim C5. For a preflight request the calls of \<open>rw.Header().Add\<close> are, in this order:
  \<open>Access-Control-Allow-Credentials: true\<close> when \<open>AccessControlAllowCredentials\<close> is set,
  \<open>Access-Control-Allow-Headers\<close> with the comma-joined list when that string is not empty,
  \<open>Access-Control-Allow-Methods\<close> likewise, \<open>Access-Control-Allow-Origin\<close> when the origin
  resolved for this request is not empty, and last, always, \<open>Access-Control-Max-Age\<close> with
  the decimal string of \<open>AccessControlMaxAge\<close>. The header map of the writer is the old one
  with these calls applied, so \<open>Access-Control-Max-Age\<close> holds that string after the values
  it had before. The string is \<open>"0"\<close> for the value 0, and reads back as the configured
  number whenever that is not negative.
\<close>

theorem preflight_emits_max_age_last:
  "spec_preflight req \<Longrightarrow>
     rw_added (writer (ServeHTTP s rw req)) = rw_added rw @
       (if AccessControlAllowCredentials (headers s)
        then [(''Access-Control-Allow-Credentials'', ''true'')] else []) @
       (if Join (AccessControlAllowHeaders (headers s)) '','' \<noteq> []
        then [(''Access-Control-Allow-Headers'', Join (AccessControlAllowHeaders (headers s)) '','')]
        else []) @
       (if Join (AccessControlAllowMethods (headers s)) '','' \<noteq> []
        then [(''Access-Control-Allow-Methods'', Join (AccessControlAllowMethods (headers s)) '','')]
        else []) @
       (if getAllowOrigin (s\<lparr> originHeader := Get (req_Header req) ''Origin'' \<rparr>) \<noteq> []
        then [(''Access-Control-Allow-Origin'',
               getAllowOrigin (s\<lparr> originHeader := Get (req_Header req) ''Origin'' \<rparr>))]
        else []) @
       [(''Access-Control-Max-Age'', Itoa (sint (AccessControlMaxAge (headers s))))] \<and>
     rw_Header (writer (ServeHTTP s rw req)) =
       foldl (\<lambda>h kv. Add h (fst kv) (snd kv)) (rw_Header rw)
         (drop (length (rw_added rw)) (rw_added (writer (ServeHTTP s rw req)))) \<and>
     rw_Header (writer (ServeHTTP s rw req)) ''Access-Control-Max-Age'' =
       Some ((case rw_Header rw ''Access-Control-Max-Age'' of None \<Rightarrow> [] | Some vs \<Rightarrow> vs) @
             [Itoa (sint (AccessControlMaxAge (headers s)))]) \<and>
     (AccessControlMaxAge (headers s) = 0 \<longrightarrow>
        Itoa (sint (AccessControlMaxAge (headers s))) = ''0'') \<and>
     (0 \<le> sint (AccessControlMaxAge (headers s)) \<longrightarrow>
        int (decimalValue (Itoa (sint (AccessControlMaxAge (headers s))))) =
          sint (AccessControlMaxAge (headers s)))"
proof -
  assume pre: "spec_preflight req"
  let ?s = "s\<lparr> originHeader := Get (req_Header req) ''Origin'' \<rparr>"
  have w: "writer (ServeHTTP s rw req) = preflightResponse ?s rw"
    using pre by (rule writer_ServeHTTP_preflight)
  have trace: "rw_added (preflightResponse ?s rw) = rw_added rw @
       (if AccessControlAllowCredentials (headers s)
        then [(''Access-Control-Allow-Credentials'', ''true'')] else []) @
       (if Join (AccessControlAllowHeaders (headers s)) '','' \<noteq> []
        then [(''Access-Control-Allow-Headers'', Join (AccessControlAllowHeaders (headers s)) '','')]
        else []) @
       (if Join (AccessControlAllowMethods (headers s)) '','' \<noteq> []
        then [(''Access-Control-Allow-Methods'', Join (AccessControlAllowMethods (headers s)) '','')]
        else []) @
       (if getAllowOrigin ?s \<noteq> [] then [(''Access-Control-Allow-Origin'', getAllowOrigin ?s)]
        else []) @
       [(''Access-Control-Max-Age'', Itoa (sint (AccessControlMaxAge (headers s))))]"
    using rw_added_preflightResponse [of ?s rw] by simp
  have hdr: "rw_Header (preflightResponse ?s rw) =
       foldl (\<lambda>h kv. Add h (fst kv) (snd kv)) (rw_Header rw)
         (drop (length (rw_added rw)) (rw_added (preflightResponse ?s rw)))"
    by (rule rw_Header_preflightResponse)
  have age: "rw_Header (preflightResponse ?s rw) ''Access-Control-Max-Age'' =
       Some ((case rw_Header rw ''Access-Control-Max-Age'' of None \<Rightarrow> [] | Some vs \<Rightarrow> vs) @
             [Itoa (sint (AccessControlMaxAge (headers s)))])"
    using maxAge_preflightResponse [of ?s rw] by simp
  have zero: "AccessControlMaxAge (headers s) = 0 \<longrightarrow>
        Itoa (sint (AccessControlMaxAge (headers s))) = ''0''"
    by (simp add: Itoa_zero)
  have readback: "0 \<le> sint (AccessControlMaxAge (headers s)) \<longrightarrow>
        int (decimalValue (Itoa (sint (AccessControlMaxAge (headers s))))) =
          sint (AccessControlMaxAge (headers s))"
    by (simp add: Itoa_def decimalValue_decimalDigits)
  from trace hdr age zero readback show ?thesis
    unfolding w by blast
qed

theorem preflight_emits_max_age_last_witness:
  "spec_preflight (optionsRequest ''http://a'') \<and>
   rw_added (writer (ServeHTTP
      (NewHeader (None :: unit option)
         (zeroHeaders\<lparr> AccessControlAllowCredentials := True,
                       AccessControlAllowHeaders := [''X-Foo'', ''X-Bar''],
                       AccessControlAllowMethods := [''GET'', ''PUT''],
                       AccessControlAllowOrigin := ''origin-list-or-null'' \<rparr>))
      emptyWriter (optionsRequest ''http://a''))) =
     [(''Access-Control-Allow-Credentials'', ''true''),
      (''Access-Control-Allow-Headers'', ''X-Foo,X-Bar''),
      (''Access-Control-Allow-Methods'', ''GET,PUT''),
      (''Access-Control-Allow-Origin'', ''http://a''),
      (''Access-Control-Max-Age'', ''0'')]"
  using
    preflight_emits_max_age_last [OF spec_preflight_optionsRequest,
      of "NewHeader (None :: unit option)
         (zeroHeaders\<lparr> AccessControlAllowCredentials := True,
                       AccessControlAllowHeaders := [''X-Foo'', ''X-Bar''],
                       AccessControlAllowMethods := [''GET'', ''PUT''],
                       AccessControlAllowOrigin := ''origin-list-or-null'' \<rparr>)" emptyWriter]
    spec_preflight_optionsRequest
  by (simp add: NewHeader_def zeroHeaders_def emptyWriter_def optionsRequest_def
        getAllowOrigin_def Get_def canon_literals Itoa_zero)

section \<open>Preflight detection\<close>

lemma sample_keys:
  "CanonicalMIMEHeaderKey ''X-Old'' = ''X-Old''"
  "CanonicalMIMEHeaderKey ''x-new'' = ''X-New''"
  "CanonicalMIMEHeaderKey ''X-New'' = ''X-New''"
  "CanonicalMIMEHeaderKey ''x-dup'' = ''X-Dup''"
  "CanonicalMIMEHeaderKey ''X-Dup'' = ''X-Dup''"
  by code_simp+



section \<open>Credentials on the response path\<close>

lemma ModifyResponseHeaders_error: "snd (ModifyResponseHeaders s res) = None"
  by (simp add: ModifyResponseHeaders_def)

lemma exposeHeadersStage_other:
  "k \<noteq> ''Access-Control-Expose-Headers'' \<Longrightarrow> exposeHeadersStage s h k = h k"
  by (simp add: exposeHeadersStage_def Let_def Set_def canon_literals)

lemma allowCredentialsStage_other:
  "k \<noteq> ''Access-Control-Allow-Credentials'' \<Longrightarrow> allowCredentialsStage s h k = h k"
  by (simp add: allowCredentialsStage_def Set_def canon_literals)

lemma allowOriginStage_other:
  "k \<noteq> ''Access-Control-Allow-Origin'' \<Longrightarrow> k \<noteq> ''Vary'' \<Longrightarrow> allowOriginStage s h k = h k"
  by (simp add: allowOriginStage_def Let_def Set_def canon_literals)

text \<open>
  Claim C6. When \<open>AccessControlAllowCredentials\<close> is set, the response that
  \<open>ModifyResponseHeaders\<close> leaves holds \<open>Access-Control-Allow-Credentials\<close> with the single
  value \<open>true\<close>, whatever \<open>getAllowOrigin\<close> returned, and the function returns no error.
\<close>

theorem ModifyResponseHeaders_credentials:
  "AccessControlAllowCredentials (headers s) \<Longrightarrow>
     res_Header (fst (ModifyResponseHeaders s res)) ''Access-Control-Allow-Credentials'' =
       Some [''true''] \<and>
     Get (res_Header (fst (ModifyResponseHeaders s res))) ''Access-Control-Allow-Credentials'' =
       ''true'' \<and>
     snd (ModifyResponseHeaders s res) = None"
  by (simp add: ModifyResponseHeaders_def exposeHeadersStage_other allowCredentialsStage_def Set_def Get_def
        canon_literals)

theorem ModifyResponseHeaders_credentials_witness:
  "AccessControlAllowCredentials (headers (NewHeader (None :: unit option)
      (zeroHeaders\<lparr> AccessControlAllowCredentials := True,
                    AccessControlAllowOrigin := ''http://a'' \<rparr>))) \<and>
   getAllowOrigin (NewHeader (None :: unit option)
      (zeroHeaders\<lparr> AccessControlAllowCredentials := True,
                    AccessControlAllowOrigin := ''http://a'' \<rparr>)) = [] \<and>
   Get (res_Header (fst (ModifyResponseHeaders
      (NewHeader (None :: unit option)
        (zeroHeaders\<lparr> AccessControlAllowCredentials := True,
                      AccessControlAllowOrigin := ''http://a'' \<rparr>))
      \<lparr> res_Header = Map.empty, res_Request = getRequest ''http://a'' \<rparr>)))
     ''Access-Control-Allow-Credentials'' = ''true''"
  using ModifyResponseHeaders_credentials
    [of "NewHeader (None :: unit option)
        (zeroHeaders\<lparr> AccessControlAllowCredentials := True,
                      AccessControlAllowOrigin := ''http://a'' \<rparr>)"
      "\<lparr> res_Header = Map.empty, res_Request = getRequest ''http://a'' \<rparr>"]
  by (simp add: NewHeader_def zeroHeaders_def getAllowOrigin_def)

section \<open>Construction\<close>

text \<open>
  Claim C8. \<open>New\<close> returns the error \<open>headers configuration not valid\<close> exactly when none
  of the secure-header, custom-header and CORS tests holds of the configuration. When one
  of them holds it returns a \<open>headers\<close> value with the given name whose handler is not nil.
\<close>

theorem New_error_iff_nothing_configured:
  "((\<exists>e. New hasSecure hasCustom hasCors nxt config nm = Inl e) \<longleftrightarrow>
      \<not> hasSecure config \<and> \<not> hasCustom config \<and> \<not> hasCors config) \<and>
   (\<not> hasSecure config \<and> \<not> hasCustom config \<and> \<not> hasCors config \<longrightarrow>
      New hasSecure hasCustom hasCors nxt config nm =
        Inl (ConfigError ''headers configuration not valid'')) \<and>
   (hasSecure config \<or> hasCustom config \<or> hasCors config \<longrightarrow>
      (\<exists>h i. New hasSecure hasCustom hasCors nxt config nm = Inr h \<and>
             name h = nm \<and> handler h = Some i))"
  by (auto simp: New_def Let_def)

theorem New_error_iff_nothing_configured_witness:
  "New SSLRedirect (\<lambda>c. CustomRequestHeaders c \<noteq> []) AddVaryHeader (Some (7 :: nat)) zeroHeaders ''mw'' =
     Inl (ConfigError ''headers configuration not valid'') \<and>
   (\<exists>h i. New SSLRedirect (\<lambda>c. CustomRequestHeaders c \<noteq> []) AddVaryHeader (Some (7 :: nat))
             (zeroHeaders\<lparr> AddVaryHeader := True \<rparr>) ''mw'' = Inr h \<and>
          name h = ''mw'' \<and> handler h = Some i)"
  using
    New_error_iff_nothing_configured
      [of SSLRedirect "\<lambda>c. CustomRequestHeaders c \<noteq> []" AddVaryHeader "Some (7 :: nat)" zeroHeaders "''mw''"]
    New_error_iff_nothing_configured
      [of SSLRedirect "\<lambda>c. CustomRequestHeaders c \<noteq> []" AddVaryHeader "Some (7 :: nat)"
          "zeroHeaders\<lparr> AddVaryHeader := True \<rparr>" "''mw''"]
  by (simp add: zeroHeaders_def)

section \<open>The response modifier\<close>

text \<open>
  Claim C9. \<open>buildHeaders\<close> rewrites each response with a \<open>Header\<close> made by \<open>NewHeader\<close>
  for that response, whose \<open>originHeader\<close> is empty. So with the policy
  \<open>origin-list-or-null\<close>, whenever the custom or CORS test lets \<open>ModifyResponseHeaders\<close>
  run, the response it leaves holds \<open>Access-Control-Allow-Origin: null\<close>, whatever the
  request of the response carried as \<open>Origin\<close>; that response is what \<open>buildHeaders\<close>
  returns, or hands to the external engine when secure headers are configured.
\<close>

theorem buildHeaders_origin_always_null:
  "AccessControlAllowOrigin hdrs = ''origin-list-or-null'' \<Longrightarrow>
   hasCustom hdrs \<or> hasCors hdrs \<Longrightarrow>
     originHeader (NewHeader (None :: unit option) hdrs) = [] \<and>
     getAllowOrigin (NewHeader (None :: unit option) hdrs) = ''null'' \<and>
     res_Header (fst (ModifyResponseHeaders (NewHeader (None :: unit option) hdrs) resp))
       ''Access-Control-Allow-Origin'' = Some [''null''] \<and>
     buildHeaders hasSecure hasCustom hasCors secureModify hdrs resp =
       (if hasSecure hdrs
        then secureModify (secureOptions hdrs)
               (fst (ModifyResponseHeaders (NewHeader (None :: unit option) hdrs) resp))
        else (fst (ModifyResponseHeaders (NewHeader (None :: unit option) hdrs) resp), None))"
proof -
  assume pol: "AccessControlAllowOrigin hdrs = ''origin-list-or-null''"
    and run: "hasCustom hdrs \<or> hasCors hdrs"
  let ?s = "NewHeader (None :: unit option) hdrs"
  have o: "originHeader ?s = []"
    by (simp add: NewHeader_def)
  have g: "getAllowOrigin ?s = ''null''"
    using pol by (simp add: getAllowOrigin_def NewHeader_def)
  have "allowOriginStage ?s h ''Access-Control-Allow-Origin'' = Some [''null'']" for h
    using g by (simp add: allowOriginStage_def Let_def Set_def canon_literals)
  then have a: "res_Header (fst (ModifyResponseHeaders ?s resp)) ''Access-Control-Allow-Origin'' =
      Some [''null'']"
    by (simp add: ModifyResponseHeaders_def exposeHeadersStage_other allowCredentialsStage_other)
  have b: "buildHeaders hasSecure hasCustom hasCors secureModify hdrs resp =
       (if hasSecure hdrs
        then secureModify (secureOptions hdrs) (fst (ModifyResponseHeaders ?s resp))
        else (fst (ModifyResponseHeaders ?s resp), None))"
    using run by (auto simp: buildHeaders_def Let_def ModifyResponseHeaders_def)
  from o g a b show ?thesis by blast
qed

theorem buildHeaders_origin_always_null_witness:
  "Get (req_Header (res_Request \<lparr> res_Header = Map.empty, res_Request = getRequest ''http://a'' \<rparr>))
     ''Origin'' = ''http://a'' \<and>
   Get (res_Header (fst (buildHeaders SSLRedirect (\<lambda>c. CustomRequestHeaders c \<noteq> [])
          (\<lambda>c. AccessControlAllowOrigin c \<noteq> []) (\<lambda>opt r. (r, None))
          (zeroHeaders\<lparr> AccessControlAllowOrigin := ''origin-list-or-null'' \<rparr>)
          \<lparr> res_Header = Map.empty, res_Request = getRequest ''http://a'' \<rparr>)))
     ''Access-Control-Allow-Origin'' = ''null''"
  using buildHeaders_origin_always_null
    [of "zeroHeaders\<lparr> AccessControlAllowOrigin := ''origin-list-or-null'' \<rparr>"
        "\<lambda>c. CustomRequestHeaders c \<noteq> []" "\<lambda>c. AccessControlAllowOrigin c \<noteq> []"
        "\<lparr> res_Header = Map.empty, res_Request = getRequest ''http://a'' \<rparr>"
        SSLRedirect "\<lambda>opt r. (r, None)"]
  by (simp add: zeroHeaders_def getRequest_def Get_def canon_literals)

section \<open>The custom-header loops\<close>

text \<open>
  What a run of the loop leaves under a header name: a name no entry canonicalises to keeps
  its values, a name some entry canonicalises to gets values that do not depend on the
  header map the loop started from.
\<close>

lemma setOrDelete_other:
  "CanonicalMIMEHeaderKey (fst kv) \<noteq> k \<Longrightarrow> setOrDelete h kv k = h k"
  by (simp add: setOrDelete_def Set_def Del_def)

lemma setOrDelete_same:
  "setOrDelete h kv (CanonicalMIMEHeaderKey (fst kv)) = (if snd kv = [] then None else Some [snd kv])"
  by (simp add: setOrDelete_def Set_def Del_def)

lemma foldl_setOrDelete_untouched:
  "k \<notin> CanonicalMIMEHeaderKey ` fst ` set xs \<Longrightarrow> foldl setOrDelete h xs k = h k"
proof (induction xs arbitrary: h)
  case Nil
  show ?case by simp
next
  case (Cons x xs)
  then have "foldl setOrDelete (setOrDelete h x) xs k = setOrDelete h x k"
    by simp
  moreover from Cons.prems have "CanonicalMIMEHeaderKey (fst x) \<noteq> k"
    by auto
  ultimately show ?case
    by (simp add: setOrDelete_other)
qed

lemma foldl_setOrDelete_touched:
  "k \<in> CanonicalMIMEHeaderKey ` fst ` set xs \<Longrightarrow>
     foldl setOrDelete h xs k = foldl setOrDelete h' xs k"
proof (induction xs rule: rev_induct)
  case Nil
  then show ?case by simp
next
  case (snoc x xs)
  show ?case
  proof (cases "CanonicalMIMEHeaderKey (fst x) = k")
    case True
    then show ?thesis
      using setOrDelete_same [of "foldl setOrDelete h xs" x]
        setOrDelete_same [of "foldl setOrDelete h' xs" x]
      by simp
  next
    case False
    with snoc.prems have "k \<in> CanonicalMIMEHeaderKey ` fst ` set xs"
      by auto
    then have "foldl setOrDelete h xs k = foldl setOrDelete h' xs k"
      by (rule snoc.IH)
    with False show ?thesis
      by (simp add: setOrDelete_other)
  qed
qed

lemma foldl_setOrDelete_absorb:
  assumes "CanonicalMIMEHeaderKey ` fst ` set xs \<subseteq> CanonicalMIMEHeaderKey ` fst ` set ys"
  shows "foldl setOrDelete (foldl setOrDelete h xs) ys = foldl setOrDelete h ys"
proof (rule ext)
  fix k
  show "foldl setOrDelete (foldl setOrDelete h xs) ys k = foldl setOrDelete h ys k"
  proof (cases "k \<in> CanonicalMIMEHeaderKey ` fst ` set ys")
    case True
    then show ?thesis by (rule foldl_setOrDelete_touched)
  next
    case False
    with assms have "k \<notin> CanonicalMIMEHeaderKey ` fst ` set xs"
      by blast
    with False show ?thesis
      by (simp add: foldl_setOrDelete_untouched)
  qed
qed

text \<open>
  When no two entries canonicalise to the same name, every entry decides its header: an
  empty value leaves the header absent, any other value leaves it as the single value.
\<close>

lemma foldl_setOrDelete_entry:
  "distinct (map (\<lambda>kv. CanonicalMIMEHeaderKey (fst kv)) xs) \<Longrightarrow> (k, v) \<in> set xs \<Longrightarrow>
     foldl setOrDelete h xs (CanonicalMIMEHeaderKey k) = (if v = [] then None else Some [v])"
proof (induction xs arbitrary: h)
  case Nil
  then show ?case by simp
next
  case (Cons x xs)
  show ?case
  proof (cases "x = (k, v)")
    case True
    with Cons.prems have "CanonicalMIMEHeaderKey k \<notin> CanonicalMIMEHeaderKey ` fst ` set xs"
      by auto
    then have "foldl setOrDelete (setOrDelete h x) xs (CanonicalMIMEHeaderKey k) =
        setOrDelete h x (CanonicalMIMEHeaderKey k)"
      by (rule foldl_setOrDelete_untouched)
    with True show ?thesis
      using setOrDelete_same [of h x] by simp
  next
    case False
    with Cons.prems have "(k, v) \<in> set xs" and "distinct (map (\<lambda>kv. CanonicalMIMEHeaderKey (fst kv)) xs)"
      by auto
    then show ?thesis
      using Cons.IH [of "setOrDelete h x"] by simp
  qed
qed

lemma foldl_setOrDelete_order:
  assumes "distinct (map (\<lambda>kv. CanonicalMIMEHeaderKey (fst kv)) xs)"
    and "distinct (map (\<lambda>kv. CanonicalMIMEHeaderKey (fst kv)) ys)"
    and "set ys = set xs"
  shows "foldl setOrDelete h ys = foldl setOrDelete h xs"
proof (rule ext)
  fix k
  show "foldl setOrDelete h ys k = foldl setOrDelete h xs k"
  proof (cases "k \<in> CanonicalMIMEHeaderKey ` fst ` set xs")
    case True
    then obtain a v where av: "(a, v) \<in> set xs" and k: "k = CanonicalMIMEHeaderKey a"
      by auto
    from av assms(3) have "(a, v) \<in> set ys"
      by simp
    with assms(2) have "foldl setOrDelete h ys (CanonicalMIMEHeaderKey a) =
        (if v = [] then None else Some [v])"
      by (rule foldl_setOrDelete_entry)
    moreover from assms(1) av have "foldl setOrDelete h xs (CanonicalMIMEHeaderKey a) =
        (if v = [] then None else Some [v])"
      by (rule foldl_setOrDelete_entry)
    ultimately show ?thesis
      using k by simp
  next
    case False
    with assms(3) show ?thesis
      by (simp add: foldl_setOrDelete_untouched)
  qed
qed

lemma reordered_set: "mset ys = mset xs \<Longrightarrow> set ys = set xs"
  by (rule mset_eq_setD)

lemma reordered_distinct:
  assumes "mset ys = mset xs"
  shows "distinct (map f ys) \<longleftrightarrow> distinct (map f xs)"
proof -
  from assms have "mset (map f ys) = mset (map f xs)"
    by simp
  then show ?thesis
    by (rule mset_eq_imp_distinct_iff)
qed

text \<open>
  With no two names canonicalising to the same header, a name some entry canonicalises to
  gets the same values from a run in any order, on any header map.
\<close>

lemma foldl_setOrDelete_touched_order:
  assumes "distinct (map (\<lambda>kv. CanonicalMIMEHeaderKey (fst kv)) xs)"
    and "mset ys = mset xs"
    and "k \<in> CanonicalMIMEHeaderKey ` fst ` set xs"
  shows "foldl setOrDelete h' ys k = foldl setOrDelete h xs k"
proof -
  from assms(3) obtain a v where av: "(a, v) \<in> set xs" and k: "k = CanonicalMIMEHeaderKey a"
    by auto
  from assms(1) have dy: "distinct (map (\<lambda>kv. CanonicalMIMEHeaderKey (fst kv)) ys)"
    using reordered_distinct [OF assms(2), of "\<lambda>kv. CanonicalMIMEHeaderKey (fst kv)"] by simp
  from av have "(a, v) \<in> set ys"
    using reordered_set [OF assms(2)] by simp
  with dy have "foldl setOrDelete h' ys (CanonicalMIMEHeaderKey a) = (if v = [] then None else Some [v])"
    by (rule foldl_setOrDelete_entry)
  moreover from assms(1) av have "foldl setOrDelete h xs (CanonicalMIMEHeaderKey a) =
      (if v = [] then None else Some [v])"
    by (rule foldl_setOrDelete_entry)
  ultimately show ?thesis
    using k by simp
qed

lemma foldl_setOrDelete_again:
  assumes "distinct (map (\<lambda>kv. CanonicalMIMEHeaderKey (fst kv)) xs)"
    and "mset ys = mset xs"
  shows "foldl setOrDelete (foldl setOrDelete h xs) ys = foldl setOrDelete h xs"
proof (rule ext)
  fix k
  show "foldl setOrDelete (foldl setOrDelete h xs) ys k = foldl setOrDelete h xs k"
  proof (cases "k \<in> CanonicalMIMEHeaderKey ` fst ` set xs")
    case True
    with assms show ?thesis
      by (rule foldl_setOrDelete_touched_order)
  next
    case False
    then have "k \<notin> CanonicalMIMEHeaderKey ` fst ` set ys"
      using reordered_set [OF assms(2)] by simp
    then have "foldl setOrDelete (foldl setOrDelete h xs) ys k = foldl setOrDelete h xs k"
      by (rule foldl_setOrDelete_untouched)
    then show ?thesis .
  qed
qed

lemma foldl_setOrDelete_any_order:
  assumes "distinct (map (\<lambda>kv. CanonicalMIMEHeaderKey (fst kv)) xs)"
    and "mset ys = mset xs"
  shows "foldl setOrDelete h ys = foldl setOrDelete h xs"
proof (rule foldl_setOrDelete_order)
  show "distinct (map (\<lambda>kv. CanonicalMIMEHeaderKey (fst kv)) xs)"
    by (rule assms(1))
  show "distinct (map (\<lambda>kv. CanonicalMIMEHeaderKey (fst kv)) ys)"
    using assms(1) reordered_distinct [OF assms(2), of "\<lambda>kv. CanonicalMIMEHeaderKey (fst kv)"]
    by simp
  show "set ys = set xs"
    using assms(2) by (rule reordered_set)
qed

text \<open>
  Claim C7, as the code has it. When no two names of the custom-header map canonicalise to
  the same header, a second run of the request rewrite, in whatever order it visits the
  map, leaves the request headers as the first run left them, and one run gives the same
  headers in every order; the same holds for the custom-response-header loop. An entry
  with the empty value does what \<open>Del\<close> does: the header is absent afterwards, and a header
  map that did not have it is unchanged.
\<close>

theorem custom_header_rewrite_idempotent:
  "(distinct (map (\<lambda>kv. CanonicalMIMEHeaderKey (fst kv)) (CustomRequestHeaders (headers s))) \<and>
    mset ys = mset (CustomRequestHeaders (headers s)) \<longrightarrow>
      modifyRequestHeaders (withRequestOrder s ys) (modifyRequestHeaders s req) =
        modifyRequestHeaders s req \<and>
      modifyRequestHeaders (withRequestOrder s ys) req = modifyRequestHeaders s req) \<and>
   (distinct (map (\<lambda>kv. CanonicalMIMEHeaderKey (fst kv)) (CustomResponseHeaders (headers s))) \<and>
    mset zs = mset (CustomResponseHeaders (headers s)) \<longrightarrow>
      customResponseStage (withResponseOrder s zs) (customResponseStage s h) =
        customResponseStage s h \<and>
      customResponseStage (withResponseOrder s zs) h = customResponseStage s h) \<and>
   setOrDelete h (k, []) = Del h k \<and>
   Get (setOrDelete h (k, [])) k = [] \<and>
   (h (CanonicalMIMEHeaderKey k) = None \<longrightarrow> setOrDelete h (k, []) = h)"
proof -
  have 1: "modifyRequestHeaders (withRequestOrder s ys) (modifyRequestHeaders s req) =
        modifyRequestHeaders s req \<and>
      modifyRequestHeaders (withRequestOrder s ys) req = modifyRequestHeaders s req"
    if "distinct (map (\<lambda>kv. CanonicalMIMEHeaderKey (fst kv)) (CustomRequestHeaders (headers s)))"
      and "mset ys = mset (CustomRequestHeaders (headers s))"
    using foldl_setOrDelete_again [OF that, of "req_Header req"]
      foldl_setOrDelete_any_order [OF that, of "req_Header req"]
    by (simp add: modifyRequestHeaders_def withRequestOrder_def)
  have 2: "customResponseStage (withResponseOrder s zs) (customResponseStage s h) =
        customResponseStage s h \<and>
      customResponseStage (withResponseOrder s zs) h = customResponseStage s h"
    if "distinct (map (\<lambda>kv. CanonicalMIMEHeaderKey (fst kv)) (CustomResponseHeaders (headers s)))"
      and "mset zs = mset (CustomResponseHeaders (headers s))"
    using foldl_setOrDelete_again [OF that, of h] foldl_setOrDelete_any_order [OF that, of h]
    by (simp add: customResponseStage_def withResponseOrder_def)
  have 5: "setOrDelete h (k, []) = Del h k"
    by (simp add: setOrDelete_def)
  have 6: "Get (setOrDelete h (k, [])) k = []"
    by (simp add: setOrDelete_def Del_def Get_def)
  have 7: "h (CanonicalMIMEHeaderKey k) = None \<longrightarrow> setOrDelete h (k, []) = h"
    by (auto simp: setOrDelete_def Del_def)
  from 1 2 5 6 7 show ?thesis by blast
qed

theorem custom_header_rewrite_idempotent_witness:
  "distinct (map (\<lambda>kv. CanonicalMIMEHeaderKey (fst kv)) (CustomRequestHeaders (headers sampleHeader))) \<and>
   mset [(''x-new'', ''v''), (''X-Old'', [])] = mset (CustomRequestHeaders (headers sampleHeader)) \<and>
   modifyRequestHeaders (withRequestOrder sampleHeader [(''x-new'', ''v''), (''X-Old'', [])])
       (modifyRequestHeaders sampleHeader (getRequest ''http://a'')) =
     modifyRequestHeaders sampleHeader (getRequest ''http://a'') \<and>
   req_Header (getRequest ''http://a'') ''X-Old'' = Some [''1''] \<and>
   req_Header (modifyRequestHeaders sampleHeader (getRequest ''http://a'')) ''X-Old'' = None \<and>
   req_Header (modifyRequestHeaders sampleHeader (getRequest ''http://a'')) ''X-New'' = Some [''v''] \<and>
   distinct (map (\<lambda>kv. CanonicalMIMEHeaderKey (fst kv)) (CustomResponseHeaders (headers sampleHeader))) \<and>
   mset [(''x-new'', ''v''), (''X-Old'', [])] = mset (CustomResponseHeaders (headers sampleHeader)) \<and>
   customResponseStage (withResponseOrder sampleHeader [(''x-new'', ''v''), (''X-Old'', [])])
       (customResponseStage sampleHeader (res_Header sampleResponse)) =
     customResponseStage sampleHeader (res_Header sampleResponse) \<and>
   customResponseStage sampleHeader (res_Header sampleResponse) ''X-Old'' = None \<and>
   customResponseStage sampleHeader (res_Header sampleResponse) ''X-New'' = Some [''v'']"
proof -
  let ?ys = "[(''x-new'', ''v''), (''X-Old'', [])]"
  have cfg: "CustomRequestHeaders (headers sampleHeader) = [(''X-Old'', []), (''x-new'', ''v'')]"
    "CustomResponseHeaders (headers sampleHeader) = [(''X-Old'', []), (''x-new'', ''v'')]"
    by (simp_all add: sampleHeader_def NewHeader_def zeroHeaders_def)
  have dq: "distinct (map (\<lambda>kv. CanonicalMIMEHeaderKey (fst kv)) (CustomRequestHeaders (headers sampleHeader)))"
    by (simp add: cfg sample_keys)
  have ds: "distinct (map (\<lambda>kv. CanonicalMIMEHeaderKey (fst kv)) (CustomResponseHeaders (headers sampleHeader)))"
    by (simp add: cfg sample_keys)
  have mq: "mset ?ys = mset (CustomRequestHeaders (headers sampleHeader))"
    by (simp add: cfg)
  have ms: "mset ?ys = mset (CustomResponseHeaders (headers sampleHeader))"
    by (simp add: cfg)
  note inst = custom_header_rewrite_idempotent
    [of sampleHeader ?ys "getRequest ''http://a''" ?ys "res_Header sampleResponse"]
  note rq = inst [THEN conjunct1, THEN mp, OF conjI, OF dq mq, THEN conjunct1]
  note rs = inst [THEN conjunct2, THEN conjunct1, THEN mp, OF conjI, OF ds ms, THEN conjunct1]
  have old0: "req_Header (getRequest ''http://a'') ''X-Old'' = Some [''1'']"
    by (simp add: getRequest_def)
  have old: "req_Header (modifyRequestHeaders sampleHeader (getRequest ''http://a'')) ''X-Old'' = None"
    by (simp add: modifyRequestHeaders_def cfg getRequest_def setOrDelete_def Set_def Del_def sample_keys)
  have new: "req_Header (modifyRequestHeaders sampleHeader (getRequest ''http://a'')) ''X-New'' = Some [''v'']"
    by (simp add: modifyRequestHeaders_def cfg getRequest_def setOrDelete_def Set_def Del_def sample_keys)
  have sold: "customResponseStage sampleHeader (res_Header sampleResponse) ''X-Old'' = None"
    by (simp add: customResponseStage_def cfg sampleResponse_def setOrDelete_def Set_def Del_def sample_keys)
  have snew: "customResponseStage sampleHeader (res_Header sampleResponse) ''X-New'' = Some [''v'']"
    by (simp add: customResponseStage_def cfg sampleResponse_def setOrDelete_def Set_def Del_def sample_keys)
  from dq mq rq old0 old new ds ms rs sold snew show ?thesis
    by (intro conjI)
qed

text \<open>
  Claim C7 as it is written fails for a map with the two names \<open>x-dup\<close> and \<open>X-Dup\<close>: the
  first run of the request rewrite, visiting \<open>x-dup\<close> first, leaves \<open>X-Dup: upper\<close>; a
  second run that visits \<open>X-Dup\<close> first leaves \<open>X-Dup: lower\<close>.
\<close>

theorem custom_header_rewrite_counterexample:
  "mset [(''X-Dup'', ''upper''), (''x-dup'', ''lower'')] = mset (CustomRequestHeaders (headers dupHeader)) \<and>
   req_Header (modifyRequestHeaders dupHeader (getRequest ''http://a'')) ''X-Dup'' = Some [''upper''] \<and>
   req_Header (modifyRequestHeaders
       (withRequestOrder dupHeader [(''X-Dup'', ''upper''), (''x-dup'', ''lower'')])
       (modifyRequestHeaders dupHeader (getRequest ''http://a''))) ''X-Dup'' = Some [''lower''] \<and>
   modifyRequestHeaders
       (withRequestOrder dupHeader [(''X-Dup'', ''upper''), (''x-dup'', ''lower'')])
       (modifyRequestHeaders dupHeader (getRequest ''http://a'')) \<noteq>
     modifyRequestHeaders dupHeader (getRequest ''http://a'')"
proof -
  let ?once = "modifyRequestHeaders dupHeader (getRequest ''http://a'')"
  let ?twice = "modifyRequestHeaders
       (withRequestOrder dupHeader [(''X-Dup'', ''upper''), (''x-dup'', ''lower'')]) ?once"
  have cfg: "CustomRequestHeaders (headers dupHeader) = [(''x-dup'', ''lower''), (''X-Dup'', ''upper'')]"
    by (simp add: dupHeader_def NewHeader_def zeroHeaders_def)
  have m: "mset [(''X-Dup'', ''upper''), (''x-dup'', ''lower'')] = mset (CustomRequestHeaders (headers dupHeader))"
    by (simp add: cfg)
  have once: "req_Header ?once ''X-Dup'' = Some [''upper'']"
    by (simp add: modifyRequestHeaders_def cfg setOrDelete_def Set_def Del_def sample_keys)
  have twice: "req_Header ?twice ''X-Dup'' = Some [''lower'']"
    by (simp add: modifyRequestHeaders_def withRequestOrder_def setOrDelete_def Set_def Del_def
          sample_keys)
  have "?twice \<noteq> ?once"
  proof
    assume "?twice = ?once"
    then have "req_Header ?twice ''X-Dup'' = req_Header ?once ''X-Dup''"
      by simp
    with once twice show False
      by simp
  qed
  with m once twice show ?thesis
    by (intro conjI)
qed

section \<open>The response rewrite, header by header\<close>

lemma Get_Vary: "Get h ''Vary'' = (case h ''Vary'' of None \<Rightarrow> [] | Some [] \<Rightarrow> [] | Some (v # _) \<Rightarrow> v)"
  by (simp add: Get_def canon_literals)

lemma allowOriginStage_Vary:
  "allowOriginStage s h ''Vary'' =
     (if getAllowOrigin s \<noteq> [] \<and> AddVaryHeader (headers s)
      then Some [if Get h ''Vary'' \<noteq> [] then Get h ''Vary'' @ '',Origin'' else ''Origin'']
      else h ''Vary'')"
  by (simp add: allowOriginStage_def Let_def Set_def Get_def canon_literals)

lemma allowOriginStage_Origin:
  "allowOriginStage s h ''Access-Control-Allow-Origin'' =
     (if getAllowOrigin s \<noteq> [] then Some [getAllowOrigin s] else h ''Access-Control-Allow-Origin'')"
  by (simp add: allowOriginStage_def Let_def Set_def canon_literals)

lemma allowCredentialsStage_same:
  "allowCredentialsStage s h ''Access-Control-Allow-Credentials'' =
     (if AccessControlAllowCredentials (headers s) then Some [''true'']
      else h ''Access-Control-Allow-Credentials'')"
  by (simp add: allowCredentialsStage_def Set_def canon_literals)

lemma exposeHeadersStage_same:
  "exposeHeadersStage s h ''Access-Control-Expose-Headers'' =
     (if Join (AccessControlExposeHeaders (headers s)) '','' \<noteq> []
      then Some [Join (AccessControlExposeHeaders (headers s)) '','']
      else h ''Access-Control-Expose-Headers'')"
  by (simp add: exposeHeadersStage_def Let_def Set_def canon_literals)

text \<open>The values \<open>ModifyResponseHeaders\<close> leaves under every header name.\<close>

lemma ModifyResponseHeaders_at:
  "res_Header (fst (ModifyResponseHeaders s res)) k =
     (if k = ''Access-Control-Expose-Headers'' \<and>
         Join (AccessControlExposeHeaders (headers s)) '','' \<noteq> []
      then Some [Join (AccessControlExposeHeaders (headers s)) '','']
      else if k = ''Access-Control-Allow-Credentials'' \<and> AccessControlAllowCredentials (headers s)
      then Some [''true'']
      else if k = ''Access-Control-Allow-Origin'' \<and> getAllowOrigin s \<noteq> []
      then Some [getAllowOrigin s]
      else if k = ''Vary'' \<and> getAllowOrigin s \<noteq> [] \<and> AddVaryHeader (headers s)
      then Some [if Get (customResponseStage s (res_Header res)) ''Vary'' \<noteq> []
                 then Get (customResponseStage s (res_Header res)) ''Vary'' @ '',Origin''
                 else ''Origin'']
      else customResponseStage s (res_Header res) k)"
proof -
  let ?h1 = "customResponseStage s (res_Header res)"
  let ?h2 = "allowOriginStage s ?h1"
  let ?h3 = "allowCredentialsStage s ?h2"
  have m: "res_Header (fst (ModifyResponseHeaders s res)) = exposeHeadersStage s ?h3"
    by (simp add: ModifyResponseHeaders_def)
  consider (e) "k = ''Access-Control-Expose-Headers''"
    | (c) "k = ''Access-Control-Allow-Credentials''"
    | (o) "k = ''Access-Control-Allow-Origin''"
    | (v) "k = ''Vary''"
    | (other) "k \<noteq> ''Access-Control-Expose-Headers''" "k \<noteq> ''Access-Control-Allow-Credentials''"
        "k \<noteq> ''Access-Control-Allow-Origin''" "k \<noteq> ''Vary''"
    by blast
  then show ?thesis
  proof cases
    case e
    then show ?thesis
      unfolding m
      by (simp add: exposeHeadersStage_same allowCredentialsStage_other allowOriginStage_other)
  next
    case c
    then show ?thesis
      unfolding m
      by (simp add: exposeHeadersStage_other allowCredentialsStage_same allowOriginStage_other)
  next
    case o
    then show ?thesis
      unfolding m
      by (simp add: exposeHeadersStage_other allowCredentialsStage_other allowOriginStage_Origin)
  next
    case v
    then show ?thesis
      unfolding m
      by (simp add: exposeHeadersStage_other allowCredentialsStage_other allowOriginStage_Vary)
  next
    case other
    then show ?thesis
      unfolding m
      by (simp add: exposeHeadersStage_other allowCredentialsStage_other allowOriginStage_other)
  qed
qed

lemma customResponseStage_untouched:
  "k \<notin> CanonicalMIMEHeaderKey ` fst ` set (CustomResponseHeaders (headers s)) \<Longrightarrow>
     customResponseStage s h k = h k"
  by (simp add: customResponseStage_def foldl_setOrDelete_untouched)

lemma customResponseStage_touched:
  "k \<in> CanonicalMIMEHeaderKey ` fst ` set (CustomResponseHeaders (headers s)) \<Longrightarrow>
     customResponseStage s h k = customResponseStage s h' k"
  unfolding customResponseStage_def by (rule foldl_setOrDelete_touched)

text \<open>
  Claim C3, as the code has it. The \<open>Vary\<close> value that lines 191--197 extend is read after
  the custom response headers have been applied. With \<open>AddVaryHeader\<close> and a non-empty
  allow-origin, \<open>Vary\<close> becomes that value followed by \<open>,Origin\<close>, or \<open>Origin\<close> alone when
  that value is empty or absent; with an empty allow-origin or without \<open>AddVaryHeader\<close>,
  \<open>Vary\<close> stays as the custom response headers left it. When no custom response header
  canonicalises to \<open>Vary\<close>, that is the \<open>Vary\<close> header of the response as it came in.
\<close>

theorem vary_header_after_custom_headers:
  "(AddVaryHeader (headers s) \<and> getAllowOrigin s \<noteq> [] \<and>
    Get (customResponseStage s (res_Header res)) ''Vary'' \<noteq> [] \<longrightarrow>
      res_Header (fst (ModifyResponseHeaders s res)) ''Vary'' =
        Some [Get (customResponseStage s (res_Header res)) ''Vary'' @ '',Origin'']) \<and>
   (AddVaryHeader (headers s) \<and> getAllowOrigin s \<noteq> [] \<and>
    Get (customResponseStage s (res_Header res)) ''Vary'' = [] \<longrightarrow>
      res_Header (fst (ModifyResponseHeaders s res)) ''Vary'' = Some [''Origin'']) \<and>
   (getAllowOrigin s = [] \<or> \<not> AddVaryHeader (headers s) \<longrightarrow>
      res_Header (fst (ModifyResponseHeaders s res)) ''Vary'' =
        customResponseStage s (res_Header res) ''Vary'') \<and>
   (''Vary'' \<notin> CanonicalMIMEHeaderKey ` fst ` set (CustomResponseHeaders (headers s)) \<longrightarrow>
      customResponseStage s (res_Header res) ''Vary'' = res_Header res ''Vary'' \<and>
      Get (customResponseStage s (res_Header res)) ''Vary'' = Get (res_Header res) ''Vary'')"
proof -
  have "''Vary'' \<notin> CanonicalMIMEHeaderKey ` fst ` set (CustomResponseHeaders (headers s)) \<longrightarrow>
      customResponseStage s (res_Header res) ''Vary'' = res_Header res ''Vary'' \<and>
      Get (customResponseStage s (res_Header res)) ''Vary'' = Get (res_Header res) ''Vary''"
    by (simp add: customResponseStage_untouched Get_Vary)
  then show ?thesis
    by (simp add: ModifyResponseHeaders_at)
qed

theorem vary_header_after_custom_headers_witness:
  "res_Header (fst (ModifyResponseHeaders
      (NewHeader (None :: unit option)
        (zeroHeaders\<lparr> AccessControlAllowOrigin := ''*'', AddVaryHeader := True \<rparr>))
      \<lparr> res_Header = [''Vary'' \<mapsto> [''Accept-Encoding'']], res_Request = getRequest ''http://a'' \<rparr>))
     ''Vary'' = Some [''Accept-Encoding,Origin''] \<and>
   res_Header (fst (ModifyResponseHeaders
      (NewHeader (None :: unit option)
        (zeroHeaders\<lparr> AccessControlAllowOrigin := ''*'', AddVaryHeader := True \<rparr>))
      \<lparr> res_Header = Map.empty, res_Request = getRequest ''http://a'' \<rparr>))
     ''Vary'' = Some [''Origin''] \<and>
   res_Header (fst (ModifyResponseHeaders
      (NewHeader (None :: unit option)
        (zeroHeaders\<lparr> AccessControlAllowOrigin := ''http://a'', AddVaryHeader := True \<rparr>))
      \<lparr> res_Header = [''Vary'' \<mapsto> [''Accept-Encoding'']], res_Request = getRequest ''http://a'' \<rparr>))
     ''Vary'' = Some [''Accept-Encoding'']"
  using
    vary_header_after_custom_headers
      [of "NewHeader (None :: unit option)
            (zeroHeaders\<lparr> AccessControlAllowOrigin := ''*'', AddVaryHeader := True \<rparr>)"
          "\<lparr> res_Header = [''Vary'' \<mapsto> [''Accept-Encoding'']], res_Request = getRequest ''http://a'' \<rparr>"]
    vary_header_after_custom_headers
      [of "NewHeader (None :: unit option)
            (zeroHeaders\<lparr> AccessControlAllowOrigin := ''*'', AddVaryHeader := True \<rparr>)"
          "\<lparr> res_Header = Map.empty, res_Request = getRequest ''http://a'' \<rparr>"]
    vary_header_after_custom_headers
      [of "NewHeader (None :: unit option)
            (zeroHeaders\<lparr> AccessControlAllowOrigin := ''http://a'', AddVaryHeader := True \<rparr>)"
          "\<lparr> res_Header = [''Vary'' \<mapsto> [''Accept-Encoding'']], res_Request = getRequest ''http://a'' \<rparr>"]
  by (simp add: NewHeader_def zeroHeaders_def getAllowOrigin_def customResponseStage_def Get_Vary)

text \<open>
  Claim C3 as it is written fails where a custom response header is named \<open>Vary\<close>: the
  response comes in with \<open>Vary: Accept-Encoding\<close>, the configuration sets the custom response
  header \<open>Vary\<close> to \<open>Accept-Language\<close>, and the response leaves with
  \<open>Vary: Accept-Language,Origin\<close>, not \<open>Accept-Encoding,Origin\<close>.
\<close>

theorem vary_header_counterexample:
  "AddVaryHeader (headers (NewHeader (None :: unit option)
      (zeroHeaders\<lparr> CustomResponseHeaders := [(''Vary'', ''Accept-Language'')],
                    AccessControlAllowOrigin := ''*'', AddVaryHeader := True \<rparr>))) \<and>
   getAllowOrigin (NewHeader (None :: unit option)
      (zeroHeaders\<lparr> CustomResponseHeaders := [(''Vary'', ''Accept-Language'')],
                    AccessControlAllowOrigin := ''*'', AddVaryHeader := True \<rparr>)) \<noteq> [] \<and>
   Get (res_Header
      \<lparr> res_Header = [''Vary'' \<mapsto> [''Accept-Encoding'']], res_Request = getRequest ''http://a'' \<rparr>)
     ''Vary'' = ''Accept-Encoding'' \<and>
   Get (res_Header (fst (ModifyResponseHeaders
      (NewHeader (None :: unit option)
        (zeroHeaders\<lparr> CustomResponseHeaders := [(''Vary'', ''Accept-Language'')],
                      AccessControlAllowOrigin := ''*'', AddVaryHeader := True \<rparr>))
      \<lparr> res_Header = [''Vary'' \<mapsto> [''Accept-Encoding'']], res_Request = getRequest ''http://a'' \<rparr>)))
     ''Vary'' = ''Accept-Language,Origin'' \<and>
   ''Accept-Language,Origin'' \<noteq> ''Accept-Encoding'' @ '',Origin''"
  by (simp add: ModifyResponseHeaders_at NewHeader_def zeroHeaders_def getAllowOrigin_def
        customResponseStage_def setOrDelete_def Set_def Get_Vary canon_literals)

section \<open>Applying the response rewrite twice\<close>

lemma ModifyResponseHeaders_twice_other:
  assumes "k \<noteq> ''Vary''"
  shows "res_Header (fst (ModifyResponseHeaders s (fst (ModifyResponseHeaders s res)))) k =
         res_Header (fst (ModifyResponseHeaders s res)) k"
proof -
  let ?r1 = "fst (ModifyResponseHeaders s res)"
  note L = ModifyResponseHeaders_at [of s ?r1 k]
  note R = ModifyResponseHeaders_at [of s res k]
  show ?thesis
  proof (cases "k \<in> CanonicalMIMEHeaderKey ` fst ` set (CustomResponseHeaders (headers s))")
    case True
    then have "customResponseStage s (res_Header ?r1) k = customResponseStage s (res_Header res) k"
      by (rule customResponseStage_touched)
    with L R assms show ?thesis by simp
  next
    case False
    then have "customResponseStage s (res_Header ?r1) k = res_Header ?r1 k"
      by (rule customResponseStage_untouched)
    with L R assms show ?thesis by (simp split: if_splits)
  qed
qed

lemma ModifyResponseHeaders_twice_Vary_appended:
  assumes "AddVaryHeader (headers s)" and "getAllowOrigin s \<noteq> []"
    and "''Vary'' \<notin> CanonicalMIMEHeaderKey ` fst ` set (CustomResponseHeaders (headers s))"
  shows "res_Header (fst (ModifyResponseHeaders s (fst (ModifyResponseHeaders s res)))) ''Vary'' =
           Some [Get (res_Header (fst (ModifyResponseHeaders s res))) ''Vary'' @ '',Origin'']"
    and "Get (res_Header (fst (ModifyResponseHeaders s res))) ''Vary'' =
           (if Get (res_Header res) ''Vary'' \<noteq> [] then Get (res_Header res) ''Vary'' @ '',Origin''
            else ''Origin'')"
proof -
  let ?r1 = "fst (ModifyResponseHeaders s res)"
  have c: "customResponseStage s h ''Vary'' = h ''Vary''" for h
    using assms(3) by (rule customResponseStage_untouched)
  then have g: "Get (customResponseStage s h) ''Vary'' = Get h ''Vary''" for h
    by (simp add: Get_Vary)
  have r1: "res_Header ?r1 ''Vary'' =
      Some [if Get (res_Header res) ''Vary'' \<noteq> [] then Get (res_Header res) ''Vary'' @ '',Origin''
            else ''Origin'']"
    using assms(1,2) by (simp add: ModifyResponseHeaders_at g)
  then show g1: "Get (res_Header ?r1) ''Vary'' =
      (if Get (res_Header res) ''Vary'' \<noteq> [] then Get (res_Header res) ''Vary'' @ '',Origin''
       else ''Origin'')"
    by (simp add: Get_Vary)
  then have "Get (res_Header ?r1) ''Vary'' \<noteq> []"
    by simp
  then show "res_Header (fst (ModifyResponseHeaders s ?r1)) ''Vary'' =
      Some [Get (res_Header ?r1) ''Vary'' @ '',Origin'']"
    using assms(1,2) by (simp add: ModifyResponseHeaders_at [of s ?r1] g)
qed

lemma ModifyResponseHeaders_twice_Vary_kept:
  assumes "\<not> (AddVaryHeader (headers s) \<and> getAllowOrigin s \<noteq> [] \<and>
      ''Vary'' \<notin> CanonicalMIMEHeaderKey ` fst ` set (CustomResponseHeaders (headers s)))"
  shows "res_Header (fst (ModifyResponseHeaders s (fst (ModifyResponseHeaders s res)))) ''Vary'' =
         res_Header (fst (ModifyResponseHeaders s res)) ''Vary''"
proof -
  let ?r1 = "fst (ModifyResponseHeaders s res)"
  note L = ModifyResponseHeaders_at [of s ?r1 "''Vary''"]
  note R = ModifyResponseHeaders_at [of s res "''Vary''"]
  show ?thesis
  proof (cases "''Vary'' \<in> CanonicalMIMEHeaderKey ` fst ` set (CustomResponseHeaders (headers s))")
    case True
    then have "customResponseStage s (res_Header ?r1) ''Vary'' =
        customResponseStage s (res_Header res) ''Vary''"
      by (rule customResponseStage_touched)
    then have "Get (customResponseStage s (res_Header ?r1)) ''Vary'' =
        Get (customResponseStage s (res_Header res)) ''Vary''"
      by (simp add: Get_Vary)
    with L R \<open>customResponseStage s (res_Header ?r1) ''Vary'' =
        customResponseStage s (res_Header res) ''Vary''\<close>
    show ?thesis by simp
  next
    case False
    with assms have off: "\<not> (getAllowOrigin s \<noteq> [] \<and> AddVaryHeader (headers s))"
      by blast
    from False have "customResponseStage s (res_Header ?r1) ''Vary'' = res_Header ?r1 ''Vary''"
      by (rule customResponseStage_untouched)
    with L off show ?thesis by auto
  qed
qed

lemma ModifyResponseHeaders_fst:
  "fst (ModifyResponseHeaders s res) = res\<lparr> res_Header := res_Header (fst (ModifyResponseHeaders s res)) \<rparr>"
  by (simp add: ModifyResponseHeaders_def)

lemma ModifyResponseHeaders_twice_same:
  assumes "\<not> (AddVaryHeader (headers s) \<and> getAllowOrigin s \<noteq> [] \<and>
      ''Vary'' \<notin> CanonicalMIMEHeaderKey ` fst ` set (CustomResponseHeaders (headers s)))"
  shows "fst (ModifyResponseHeaders s (fst (ModifyResponseHeaders s res))) =
         fst (ModifyResponseHeaders s res)"
proof -
  let ?r1 = "fst (ModifyResponseHeaders s res)"
  have "res_Header (fst (ModifyResponseHeaders s ?r1)) k = res_Header ?r1 k" for k
    using ModifyResponseHeaders_twice_other [of k s res]
      ModifyResponseHeaders_twice_Vary_kept [OF assms, of res]
    by (cases "k = ''Vary''") simp_all
  then have "res_Header (fst (ModifyResponseHeaders s ?r1)) = res_Header ?r1"
    by (rule ext)
  then show ?thesis
    using ModifyResponseHeaders_fst [of s ?r1] by simp
qed

text \<open>The same on a later run that visits the custom response headers in the order \<open>ys\<close>.\<close>

lemma ModifyResponseHeaders_at_order:
  "res_Header (fst (ModifyResponseHeaders (withResponseOrder s ys) res)) k =
     (if k = ''Access-Control-Expose-Headers'' \<and>
         Join (AccessControlExposeHeaders (headers s)) '','' \<noteq> []
      then Some [Join (AccessControlExposeHeaders (headers s)) '','']
      else if k = ''Access-Control-Allow-Credentials'' \<and> AccessControlAllowCredentials (headers s)
      then Some [''true'']
      else if k = ''Access-Control-Allow-Origin'' \<and> getAllowOrigin s \<noteq> []
      then Some [getAllowOrigin s]
      else if k = ''Vary'' \<and> getAllowOrigin s \<noteq> [] \<and> AddVaryHeader (headers s)
      then Some [if Get (foldl setOrDelete (res_Header res) ys) ''Vary'' \<noteq> []
                 then Get (foldl setOrDelete (res_Header res) ys) ''Vary'' @ '',Origin''
                 else ''Origin'']
      else foldl setOrDelete (res_Header res) ys k)"
proof -
  have g: "getAllowOrigin (withResponseOrder s ys) = getAllowOrigin s"
    by (simp add: getAllowOrigin_def withResponseOrder_def)
  have c: "customResponseStage (withResponseOrder s ys) h = foldl setOrDelete h ys" for h
    by (simp add: customResponseStage_def withResponseOrder_def)
  have f: "AccessControlExposeHeaders (headers (withResponseOrder s ys)) =
      AccessControlExposeHeaders (headers s)"
    "AccessControlAllowCredentials (headers (withResponseOrder s ys)) =
      AccessControlAllowCredentials (headers s)"
    "AddVaryHeader (headers (withResponseOrder s ys)) = AddVaryHeader (headers s)"
    by (simp_all add: withResponseOrder_def)
  show ?thesis
    unfolding ModifyResponseHeaders_at [of "withResponseOrder s ys" res k] g c f ..
qed

lemma ModifyResponseHeaders_twice_other_order:
  assumes "distinct (map (\<lambda>kv. CanonicalMIMEHeaderKey (fst kv)) (CustomResponseHeaders (headers s)))"
    and "mset ys = mset (CustomResponseHeaders (headers s))"
    and "k \<noteq> ''Vary''"
  shows "res_Header (fst (ModifyResponseHeaders (withResponseOrder s ys)
            (fst (ModifyResponseHeaders s res)))) k =
         res_Header (fst (ModifyResponseHeaders s res)) k"
proof -
  let ?r1 = "fst (ModifyResponseHeaders s res)"
  note L = ModifyResponseHeaders_at_order [of s ys ?r1 k]
  note R = ModifyResponseHeaders_at [of s res k]
  show ?thesis
  proof (cases "k \<in> CanonicalMIMEHeaderKey ` fst ` set (CustomResponseHeaders (headers s))")
    case True
    with assms(1,2) have "foldl setOrDelete (res_Header ?r1) ys k =
        foldl setOrDelete (res_Header res) (CustomResponseHeaders (headers s)) k"
      by (rule foldl_setOrDelete_touched_order)
    then have "foldl setOrDelete (res_Header ?r1) ys k = customResponseStage s (res_Header res) k"
      by (simp add: customResponseStage_def)
    with L R assms(3) show ?thesis by simp
  next
    case False
    then have "k \<notin> CanonicalMIMEHeaderKey ` fst ` set ys"
      using reordered_set [OF assms(2)] by simp
    then have "foldl setOrDelete (res_Header ?r1) ys k = res_Header ?r1 k"
      by (rule foldl_setOrDelete_untouched)
    with L R assms(3) show ?thesis by (simp split: if_splits)
  qed
qed

lemma ModifyResponseHeaders_twice_Vary_order:
  assumes "AddVaryHeader (headers s)" and "getAllowOrigin s \<noteq> []"
    and "''Vary'' \<notin> CanonicalMIMEHeaderKey ` fst ` set (CustomResponseHeaders (headers s))"
    and "mset ys = mset (CustomResponseHeaders (headers s))"
  shows "res_Header (fst (ModifyResponseHeaders (withResponseOrder s ys)
            (fst (ModifyResponseHeaders s res)))) ''Vary'' =
           Some [Get (res_Header (fst (ModifyResponseHeaders s res))) ''Vary'' @ '',Origin'']"
    and "Get (res_Header (fst (ModifyResponseHeaders s res))) ''Vary'' =
           (if Get (res_Header res) ''Vary'' \<noteq> [] then Get (res_Header res) ''Vary'' @ '',Origin''
            else ''Origin'')"
proof -
  let ?r1 = "fst (ModifyResponseHeaders s res)"
  show g1: "Get (res_Header ?r1) ''Vary'' =
      (if Get (res_Header res) ''Vary'' \<noteq> [] then Get (res_Header res) ''Vary'' @ '',Origin''
       else ''Origin'')"
    using assms(1-3) by (rule ModifyResponseHeaders_twice_Vary_appended(2))
  then have ne: "Get (res_Header ?r1) ''Vary'' \<noteq> []"
    by simp
  from assms(3) have "''Vary'' \<notin> CanonicalMIMEHeaderKey ` fst ` set ys"
    using reordered_set [OF assms(4)] by simp
  then have "foldl setOrDelete (res_Header ?r1) ys ''Vary'' = res_Header ?r1 ''Vary''"
    by (rule foldl_setOrDelete_untouched)
  then have "Get (foldl setOrDelete (res_Header ?r1) ys) ''Vary'' = Get (res_Header ?r1) ''Vary''"
    by (simp add: Get_Vary)
  with ne assms(1,2) show "res_Header (fst (ModifyResponseHeaders (withResponseOrder s ys) ?r1)) ''Vary'' =
      Some [Get (res_Header ?r1) ''Vary'' @ '',Origin'']"
    by (simp add: ModifyResponseHeaders_at_order [of s ys ?r1])
qed

text \<open>
  Claim C10, as the code has it. With \<open>AddVaryHeader\<close>, a non-empty allow-origin and no
  custom response header that canonicalises to \<open>Vary\<close>, a second run of
  \<open>ModifyResponseHeaders\<close>, in whatever order it visits the custom response headers,
  appends \<open>,Origin\<close> to the \<open>Vary\<close> value the first run left and so changes the response;
  a response that came in without \<open>Vary\<close> ends with \<open>Origin,Origin\<close>. The second run
  leaves \<open>Access-Control-Allow-Origin\<close>, \<open>Access-Control-Allow-Credentials\<close> and
  \<open>Access-Control-Expose-Headers\<close> as the first run set them, and, when no two custom
  response header names canonicalise to the same header, every header other than \<open>Vary\<close> as
  the first run left it.
\<close>

theorem ModifyResponseHeaders_twice:
  "mset ys = mset (CustomResponseHeaders (headers s)) \<Longrightarrow>
   (AddVaryHeader (headers s) \<and> getAllowOrigin s \<noteq> [] \<and>
    ''Vary'' \<notin> CanonicalMIMEHeaderKey ` fst ` set (CustomResponseHeaders (headers s)) \<longrightarrow>
      res_Header (fst (ModifyResponseHeaders (withResponseOrder s ys)
          (fst (ModifyResponseHeaders s res)))) ''Vary'' =
        Some [Get (res_Header (fst (ModifyResponseHeaders s res))) ''Vary'' @ '',Origin''] \<and>
      fst (ModifyResponseHeaders (withResponseOrder s ys) (fst (ModifyResponseHeaders s res))) \<noteq>
        fst (ModifyResponseHeaders s res) \<and>
      (Get (res_Header res) ''Vary'' = [] \<longrightarrow>
         res_Header (fst (ModifyResponseHeaders (withResponseOrder s ys)
             (fst (ModifyResponseHeaders s res)))) ''Vary'' = Some [''Origin,Origin''])) \<and>
   (getAllowOrigin s \<noteq> [] \<longrightarrow>
      res_Header (fst (ModifyResponseHeaders s res)) ''Access-Control-Allow-Origin'' =
        Some [getAllowOrigin s] \<and>
      res_Header (fst (ModifyResponseHeaders (withResponseOrder s ys)
          (fst (ModifyResponseHeaders s res)))) ''Access-Control-Allow-Origin'' =
        Some [getAllowOrigin s]) \<and>
   (AccessControlAllowCredentials (headers s) \<longrightarrow>
      res_Header (fst (ModifyResponseHeaders s res)) ''Access-Control-Allow-Credentials'' =
        Some [''true''] \<and>
      res_Header (fst (ModifyResponseHeaders (withResponseOrder s ys)
          (fst (ModifyResponseHeaders s res)))) ''Access-Control-Allow-Credentials'' =
        Some [''true'']) \<and>
   (Join (AccessControlExposeHeaders (headers s)) '','' \<noteq> [] \<longrightarrow>
      res_Header (fst (ModifyResponseHeaders s res)) ''Access-Control-Expose-Headers'' =
        Some [Join (AccessControlExposeHeaders (headers s)) '',''] \<and>
      res_Header (fst (ModifyResponseHeaders (withResponseOrder s ys)
          (fst (ModifyResponseHeaders s res)))) ''Access-Control-Expose-Headers'' =
        Some [Join (AccessControlExposeHeaders (headers s)) '','']) \<and>
   (distinct (map (\<lambda>kv. CanonicalMIMEHeaderKey (fst kv)) (CustomResponseHeaders (headers s))) \<longrightarrow>
      (\<forall>k. k \<noteq> ''Vary'' \<longrightarrow>
         res_Header (fst (ModifyResponseHeaders (withResponseOrder s ys)
             (fst (ModifyResponseHeaders s res)))) k =
           res_Header (fst (ModifyResponseHeaders s res)) k))"
proof -
  assume m: "mset ys = mset (CustomResponseHeaders (headers s))"
  let ?r1 = "fst (ModifyResponseHeaders s res)"
  let ?r2 = "fst (ModifyResponseHeaders (withResponseOrder s ys) ?r1)"
  let ?on = "AddVaryHeader (headers s) \<and> getAllowOrigin s \<noteq> [] \<and>
       ''Vary'' \<notin> CanonicalMIMEHeaderKey ` fst ` set (CustomResponseHeaders (headers s))"
  have app: "res_Header ?r2 ''Vary'' = Some [Get (res_Header ?r1) ''Vary'' @ '',Origin'']"
    and one: "Get (res_Header ?r1) ''Vary'' =
      (if Get (res_Header res) ''Vary'' \<noteq> [] then Get (res_Header res) ''Vary'' @ '',Origin''
       else ''Origin'')" if ?on
    using that m ModifyResponseHeaders_twice_Vary_order [of s ys res] by blast+
  have differ: "?r2 \<noteq> ?r1" if on: ?on
  proof
    assume eq: "?r2 = ?r1"
    define v where "v = Get (res_Header ?r1) ''Vary''"
    from on have "res_Header ?r2 ''Vary'' = Some [v @ '',Origin'']"
      unfolding v_def by (rule app)
    with eq have "res_Header ?r1 ''Vary'' = Some [v @ '',Origin'']"
      by simp
    then have "Get (res_Header ?r1) ''Vary'' = v @ '',Origin''"
      by (simp add: Get_Vary)
    then have "v = v @ '',Origin''"
      unfolding v_def .
    then show False by simp
  qed
  have vary: "?on \<longrightarrow>
      res_Header ?r2 ''Vary'' = Some [Get (res_Header ?r1) ''Vary'' @ '',Origin''] \<and>
      ?r2 \<noteq> ?r1 \<and>
      (Get (res_Header res) ''Vary'' = [] \<longrightarrow> res_Header ?r2 ''Vary'' = Some [''Origin,Origin''])"
  proof
    assume on: ?on
    from on have a: "res_Header ?r2 ''Vary'' = Some [Get (res_Header ?r1) ''Vary'' @ '',Origin'']"
      by (rule app)
    from on have o: "Get (res_Header ?r1) ''Vary'' =
      (if Get (res_Header res) ''Vary'' \<noteq> [] then Get (res_Header res) ''Vary'' @ '',Origin''
       else ''Origin'')"
      by (rule one)
    from a o have "Get (res_Header res) ''Vary'' = [] \<longrightarrow> res_Header ?r2 ''Vary'' = Some [''Origin,Origin'']"
      by simp
    with a differ [OF on] show "res_Header ?r2 ''Vary'' = Some [Get (res_Header ?r1) ''Vary'' @ '',Origin''] \<and>
      ?r2 \<noteq> ?r1 \<and>
      (Get (res_Header res) ''Vary'' = [] \<longrightarrow> res_Header ?r2 ''Vary'' = Some [''Origin,Origin''])"
      by blast
  qed
  have origin: "getAllowOrigin s \<noteq> [] \<longrightarrow>
      res_Header ?r1 ''Access-Control-Allow-Origin'' = Some [getAllowOrigin s] \<and>
      res_Header ?r2 ''Access-Control-Allow-Origin'' = Some [getAllowOrigin s]"
    by (simp add: ModifyResponseHeaders_at [of s res]
          ModifyResponseHeaders_at_order [of s ys "fst (ModifyResponseHeaders s res)"])
  have cred: "AccessControlAllowCredentials (headers s) \<longrightarrow>
      res_Header ?r1 ''Access-Control-Allow-Credentials'' = Some [''true''] \<and>
      res_Header ?r2 ''Access-Control-Allow-Credentials'' = Some [''true'']"
    by (simp add: ModifyResponseHeaders_at [of s res]
          ModifyResponseHeaders_at_order [of s ys "fst (ModifyResponseHeaders s res)"])
  have expose: "Join (AccessControlExposeHeaders (headers s)) '','' \<noteq> [] \<longrightarrow>
      res_Header ?r1 ''Access-Control-Expose-Headers'' =
        Some [Join (AccessControlExposeHeaders (headers s)) '',''] \<and>
      res_Header ?r2 ''Access-Control-Expose-Headers'' =
        Some [Join (AccessControlExposeHeaders (headers s)) '','']"
    by (simp add: ModifyResponseHeaders_at [of s res]
          ModifyResponseHeaders_at_order [of s ys "fst (ModifyResponseHeaders s res)"])
  have other: "distinct (map (\<lambda>kv. CanonicalMIMEHeaderKey (fst kv)) (CustomResponseHeaders (headers s))) \<longrightarrow>
      (\<forall>k. k \<noteq> ''Vary'' \<longrightarrow> res_Header ?r2 k = res_Header ?r1 k)"
    using ModifyResponseHeaders_twice_other_order [OF _ m, of _ res] by blast
  from vary origin cred expose other show ?thesis
    by (intro conjI)
qed

theorem ModifyResponseHeaders_twice_witness:
  "mset [(''x-new'', ''v''), (''X-Old'', [])] = mset (CustomResponseHeaders (headers sampleHeader)) \<and>
   res_Header (fst (ModifyResponseHeaders sampleHeader sampleResponse)) ''Vary'' = Some [''Origin''] \<and>
   res_Header (fst (ModifyResponseHeaders
       (withResponseOrder sampleHeader [(''x-new'', ''v''), (''X-Old'', [])])
       (fst (ModifyResponseHeaders sampleHeader sampleResponse)))) ''Vary'' =
     Some [''Origin,Origin''] \<and>
   res_Header (fst (ModifyResponseHeaders
       (withResponseOrder sampleHeader [(''x-new'', ''v''), (''X-Old'', [])])
       (fst (ModifyResponseHeaders sampleHeader sampleResponse)))) ''Access-Control-Allow-Origin'' =
     Some [''*''] \<and>
   res_Header (fst (ModifyResponseHeaders sampleHeader sampleResponse)) ''X-New'' = Some [''v''] \<and>
   res_Header (fst (ModifyResponseHeaders
       (withResponseOrder sampleHeader [(''x-new'', ''v''), (''X-Old'', [])])
       (fst (ModifyResponseHeaders sampleHeader sampleResponse)))) ''X-New'' = Some [''v'']"
proof -
  let ?ys = "[(''x-new'', ''v''), (''X-Old'', [])]"
  let ?r1 = "fst (ModifyResponseHeaders sampleHeader sampleResponse)"
  have cfg: "CustomResponseHeaders (headers sampleHeader) = [(''X-Old'', []), (''x-new'', ''v'')]"
    "AddVaryHeader (headers sampleHeader)" "getAllowOrigin sampleHeader = ''*''"
    "AccessControlAllowCredentials (headers sampleHeader) = False"
    "AccessControlExposeHeaders (headers sampleHeader) = []"
    by (simp_all add: sampleHeader_def NewHeader_def zeroHeaders_def getAllowOrigin_def)
  have m: "mset ?ys = mset (CustomResponseHeaders (headers sampleHeader))"
    by (simp add: cfg)
  have on: "AddVaryHeader (headers sampleHeader) \<and> getAllowOrigin sampleHeader \<noteq> [] \<and>
      ''Vary'' \<notin> CanonicalMIMEHeaderKey ` fst ` set (CustomResponseHeaders (headers sampleHeader))"
    by (simp add: cfg sample_keys)
  have ao: "getAllowOrigin sampleHeader \<noteq> []"
    by (simp add: cfg)
  have d: "distinct (map (\<lambda>kv. CanonicalMIMEHeaderKey (fst kv)) (CustomResponseHeaders (headers sampleHeader)))"
    by (simp add: cfg sample_keys)
  have absent: "Get (res_Header sampleResponse) ''Vary'' = []"
    by (simp add: Get_Vary sampleResponse_def)
  have neq: "''X-New'' \<noteq> ''Vary''"
    by simp
  note inst = ModifyResponseHeaders_twice [OF m, of sampleResponse]
  note vary2 = inst [THEN conjunct1, THEN mp, OF on, THEN conjunct2, THEN conjunct2, THEN mp, OF absent]
  note origin2 = inst [THEN conjunct2, THEN conjunct1, THEN mp, OF ao, THEN conjunct2]
  note new2 = inst [THEN conjunct2, THEN conjunct2, THEN conjunct2, THEN conjunct2, THEN mp, OF d,
      THEN spec, THEN mp, OF neq]
  have vary1: "res_Header ?r1 ''Vary'' = Some [''Origin'']"
    by (simp add: ModifyResponseHeaders_at cfg customResponseStage_def sampleResponse_def
          setOrDelete_def Set_def Del_def sample_keys Get_Vary)
  have new1: "res_Header ?r1 ''X-New'' = Some [''v'']"
    by (simp add: ModifyResponseHeaders_at cfg customResponseStage_def sampleResponse_def
          setOrDelete_def Set_def Del_def sample_keys)
  from origin2 have origin2': "res_Header (fst (ModifyResponseHeaders
       (withResponseOrder sampleHeader ?ys) ?r1)) ''Access-Control-Allow-Origin'' = Some [''*'']"
    by (simp add: cfg)
  from new2 new1 have new2': "res_Header (fst (ModifyResponseHeaders
       (withResponseOrder sampleHeader ?ys) ?r1)) ''X-New'' = Some [''v'']"
    by simp
  from m vary1 vary2 origin2' new1 new2' show ?thesis
    by (intro conjI)
qed

text \<open>
  Claim C10 as it is written fails in two places. Where a custom response header is named
  \<open>Vary\<close>: with the custom response header \<open>Vary\<close> set to the empty value (delete it),
  \<open>AddVaryHeader\<close> and the policy \<open>*\<close>, a response without \<open>Vary\<close> has \<open>Vary: Origin\<close>
  after one run and still after two, the second run changes nothing. And where two custom
  response header names canonicalise to one header: with \<open>x-dup\<close> and \<open>X-Dup\<close>, the first
  run, visiting \<open>x-dup\<close> first, leaves \<open>X-Dup: upper\<close>, and a second run that visits
  \<open>X-Dup\<close> first leaves \<open>X-Dup: lower\<close>.
\<close>

theorem ModifyResponseHeaders_twice_counterexample:
  "AddVaryHeader (headers (NewHeader (None :: unit option)
      (zeroHeaders\<lparr> CustomResponseHeaders := [(''Vary'', [])],
                    AccessControlAllowOrigin := ''*'', AddVaryHeader := True \<rparr>))) \<and>
   getAllowOrigin (NewHeader (None :: unit option)
      (zeroHeaders\<lparr> CustomResponseHeaders := [(''Vary'', [])],
                    AccessControlAllowOrigin := ''*'', AddVaryHeader := True \<rparr>)) \<noteq> [] \<and>
   res_Header \<lparr> res_Header = Map.empty, res_Request = getRequest ''http://a'' \<rparr> ''Vary'' = None \<and>
   res_Header (fst (ModifyResponseHeaders
      (NewHeader (None :: unit option)
        (zeroHeaders\<lparr> CustomResponseHeaders := [(''Vary'', [])],
                      AccessControlAllowOrigin := ''*'', AddVaryHeader := True \<rparr>))
      (fst (ModifyResponseHeaders
        (NewHeader (None :: unit option)
          (zeroHeaders\<lparr> CustomResponseHeaders := [(''Vary'', [])],
                        AccessControlAllowOrigin := ''*'', AddVaryHeader := True \<rparr>))
        \<lparr> res_Header = Map.empty, res_Request = getRequest ''http://a'' \<rparr>))))
     ''Vary'' = Some [''Origin''] \<and>
   fst (ModifyResponseHeaders
      (NewHeader (None :: unit option)
        (zeroHeaders\<lparr> CustomResponseHeaders := [(''Vary'', [])],
                      AccessControlAllowOrigin := ''*'', AddVaryHeader := True \<rparr>))
      (fst (ModifyResponseHeaders
        (NewHeader (None :: unit option)
          (zeroHeaders\<lparr> CustomResponseHeaders := [(''Vary'', [])],
                        AccessControlAllowOrigin := ''*'', AddVaryHeader := True \<rparr>))
        \<lparr> res_Header = Map.empty, res_Request = getRequest ''http://a'' \<rparr>))) =
   fst (ModifyResponseHeaders
      (NewHeader (None :: unit option)
        (zeroHeaders\<lparr> CustomResponseHeaders := [(''Vary'', [])],
                      AccessControlAllowOrigin := ''*'', AddVaryHeader := True \<rparr>))
      \<lparr> res_Header = Map.empty, res_Request = getRequest ''http://a'' \<rparr>) \<and>
   AddVaryHeader (headers dupHeader) \<and>
   getAllowOrigin dupHeader \<noteq> [] \<and>
   mset [(''X-Dup'', ''upper''), (''x-dup'', ''lower'')] = mset (CustomResponseHeaders (headers dupHeader)) \<and>
   res_Header (fst (ModifyResponseHeaders dupHeader sampleResponse)) ''X-Dup'' = Some [''upper''] \<and>
   res_Header (fst (ModifyResponseHeaders
       (withResponseOrder dupHeader [(''X-Dup'', ''upper''), (''x-dup'', ''lower'')])
       (fst (ModifyResponseHeaders dupHeader sampleResponse)))) ''X-Dup'' = Some [''lower'']"
proof -
  let ?s = "NewHeader (None :: unit option)
      (zeroHeaders\<lparr> CustomResponseHeaders := [(''Vary'', [])],
                    AccessControlAllowOrigin := ''*'', AddVaryHeader := True \<rparr>)"
  let ?r = "\<lparr> res_Header = Map.empty, res_Request = getRequest ''http://a'' \<rparr>"
  have cfg: "AddVaryHeader (headers ?s)" "getAllowOrigin ?s \<noteq> []"
    by (simp_all add: NewHeader_def zeroHeaders_def getAllowOrigin_def)
  have named: "\<not> (AddVaryHeader (headers ?s) \<and> getAllowOrigin ?s \<noteq> [] \<and>
      ''Vary'' \<notin> CanonicalMIMEHeaderKey ` fst ` set (CustomResponseHeaders (headers ?s)))"
    by (simp add: NewHeader_def zeroHeaders_def canon_literals)
  have same: "fst (ModifyResponseHeaders ?s (fst (ModifyResponseHeaders ?s ?r))) =
      fst (ModifyResponseHeaders ?s ?r)"
    using named by (rule ModifyResponseHeaders_twice_same)
  have del: "customResponseStage ?s h ''Vary'' = None" for h
    by (simp add: customResponseStage_def NewHeader_def zeroHeaders_def setOrDelete_def Del_def
          canon_literals)
  have once: "res_Header (fst (ModifyResponseHeaders ?s ?r)) ''Vary'' = Some [''Origin'']"
    using cfg by (simp add: ModifyResponseHeaders_at Get_Vary del)
  have absent: "res_Header ?r ''Vary'' = None"
    by simp
  have twice: "res_Header (fst (ModifyResponseHeaders ?s (fst (ModifyResponseHeaders ?s ?r)))) ''Vary'' =
      Some [''Origin'']"
    unfolding same by (rule once)
  have dcfg: "CustomResponseHeaders (headers dupHeader) = [(''x-dup'', ''lower''), (''X-Dup'', ''upper'')]"
    "AddVaryHeader (headers dupHeader)" "getAllowOrigin dupHeader \<noteq> []"
    "AccessControlAllowCredentials (headers dupHeader) = False"
    "AccessControlExposeHeaders (headers dupHeader) = []"
    by (simp_all add: dupHeader_def NewHeader_def zeroHeaders_def getAllowOrigin_def)
  have dm: "mset [(''X-Dup'', ''upper''), (''x-dup'', ''lower'')] = mset (CustomResponseHeaders (headers dupHeader))"
    by (simp add: dcfg)
  have d1: "res_Header (fst (ModifyResponseHeaders dupHeader sampleResponse)) ''X-Dup'' = Some [''upper'']"
    by (simp add: ModifyResponseHeaders_at dcfg customResponseStage_def setOrDelete_def Set_def
          Del_def sample_keys)
  have d2: "res_Header (fst (ModifyResponseHeaders
       (withResponseOrder dupHeader [(''X-Dup'', ''upper''), (''x-dup'', ''lower'')])
       (fst (ModifyResponseHeaders dupHeader sampleResponse)))) ''X-Dup'' = Some [''lower'']"
    by (simp add: ModifyResponseHeaders_at_order [of dupHeader] dcfg setOrDelete_def Set_def
          Del_def sample_keys)
  from cfg(1) cfg(2) absent twice same dcfg(2) dcfg(3) dm d1 d2 show ?thesis
    by (intro conjI)
qed

section \<open>The origin stored on the receiver\<close>

lemma ServeHTTP_stores_origin:
  "originHeader (receiver (ServeHTTP s rw req)) = Get (req_Header req) ''Origin''"
  by (simp add: ServeHTTP_def storeOrigin_def respond_def Let_def)

text \<open>
  Claim C4. \<open>ServeHTTP\<close> writes the \<open>Origin\<close> of the request into the field \<open>originHeader\<close>
  of its receiver, the one \<open>Header\<close> that \<open>New\<close> installed for all requests, and reads it
  back at lines 130 and 146. The receiver is shared, so the claim does not hold of the code:
  after a request with origin \<open>http://a\<close> the receiver holds \<open>http://a\<close>; and when a second
  request with origin \<open>http://b\<close> runs its lines 126--128 between lines 128 and 130 of the
  first, the preflight response of the first request carries
  \<open>Access-Control-Allow-Origin: http://b\<close>, where a run on its own gives \<open>http://a\<close>.
\<close>

theorem shared_originHeader_leaks:
  "originHeader (receiver (ServeHTTP
      (NewHeader (Some (7 :: nat)) (zeroHeaders\<lparr> AccessControlAllowOrigin := ''origin-list-or-null'' \<rparr>))
      emptyWriter (optionsRequest ''http://a''))) = ''http://a'' \<and>
   rw_Header (writer (ServeHTTP
      (NewHeader (Some (7 :: nat)) (zeroHeaders\<lparr> AccessControlAllowOrigin := ''origin-list-or-null'' \<rparr>))
      emptyWriter (optionsRequest ''http://a''))) ''Access-Control-Allow-Origin'' = Some [''http://a''] \<and>
   rw_Header (writer (ServeHTTP_interleaved
      (NewHeader (Some (7 :: nat)) (zeroHeaders\<lparr> AccessControlAllowOrigin := ''origin-list-or-null'' \<rparr>))
      emptyWriter (optionsRequest ''http://a'') (optionsRequest ''http://b'')))
     ''Access-Control-Allow-Origin'' = Some [''http://b'']"
  by (simp add: ServeHTTP_def ServeHTTP_interleaved_def storeOrigin_def respond_def
        preflightResponse_def addHeader_def Add_def getAllowOrigin_def NewHeader_def
        zeroHeaders_def emptyWriter_def optionsRequest_def Get_def canon_literals Let_def)

end
